theory Spec2Isabelle
  imports Main "HOL-Library.Sublist"
begin

section \<open>Assembling motion-photo and Ultra HDR containers\<close>

text \<open>
  The three scripts \<^verbatim>\<open>GenMotionPhoto.py\<close>, \<^verbatim>\<open>GenUltraHDRPhoto.py\<close> and
  \<^verbatim>\<open>GenUltraHdrMotionPhoto.py\<close> build an XMP descriptor, have ExifTool write it into a
  temporary copy of the primary image (twice), move the copy to the output path and append
  the gain map and the video to it. They are modelled as functions on an explicit
  \<open>world\<close>: the file store, the directories, the temporary directory of the running
  invocation and the log of the subprocesses started. Every \<^verbatim>\<open>raise\<close> is a value
  \<open>Inl e\<close>, returned together with the world as it is at that moment.
\<close>

subsection \<open>Strings, numbers and paths of the Python library\<close>

type_synonym path = string
type_synonym bytes = string

text \<open>\<^verbatim>\<open>str(n)\<close> of a non-negative \<^verbatim>\<open>int\<close>, as an f-string renders a file size.\<close>

definition digit_char :: "nat \<Rightarrow> char" where
  "digit_char d = ''0123456789'' ! d"

function show_nat :: "nat \<Rightarrow> string" where
  "show_nat n = (if n < 10 then [digit_char n] else show_nat (n div 10) @ [digit_char (n mod 10)])"
  by pat_completeness auto
termination
  by (relation "measure (\<lambda>n. n)") auto

declare show_nat.simps [simp del]

text \<open>\<^verbatim>\<open>str.strip()\<close>: the ASCII white space of Python is removed at both ends.\<close>

definition is_space :: "char \<Rightarrow> bool" where
  "is_space c = (c \<in> set [CHR 0x09, CHR 0x0A, CHR 0x0B, CHR 0x0C, CHR 0x0D,
                          CHR 0x1C, CHR 0x1D, CHR 0x1E, CHR 0x1F, CHR 0x20])"

definition strip :: "string \<Rightarrow> string" where
  "strip s = rev (dropWhile is_space (rev (dropWhile is_space s)))"

text \<open>The lines of a triple-quoted literal, joined by the newline character.\<close>

fun join_lines :: "string list \<Rightarrow> string" where
  "join_lines [] = []"
| "join_lines [l] = l"
| "join_lines (l # ls) = l @ CHR 0x0A # join_lines ls"

text \<open>
  \<^verbatim>\<open>posixpath\<close>: \<^verbatim>\<open>isabs\<close>, \<^verbatim>\<open>join\<close> (of two parts), \<^verbatim>\<open>basename\<close>,
  \<^verbatim>\<open>normpath\<close> and \<^verbatim>\<open>abspath\<close>, the last as a function of the working directory.
\<close>

definition os_path_isabs :: "path \<Rightarrow> bool" where
  "os_path_isabs p = (case p of [] \<Rightarrow> False | c # _ \<Rightarrow> c = CHR ''/'')"

definition os_path_join :: "path \<Rightarrow> path \<Rightarrow> path" where
  "os_path_join a b =
     (if os_path_isabs b then b
      else if a = [] \<or> last a = CHR ''/'' then a @ b
      else a @ ''/'' @ b)"

definition os_path_basename :: "path \<Rightarrow> path" where
  "os_path_basename p = rev (takeWhile (\<lambda>c. c \<noteq> CHR ''/'') (rev p))"

fun split_sep :: "string \<Rightarrow> string list" where
  "split_sep [] = [[]]"
| "split_sep (c # cs) =
     (if c = CHR ''/'' then [] # split_sep cs
      else (c # hd (split_sep cs)) # tl (split_sep cs))"

definition norm_step :: "nat \<Rightarrow> string list \<Rightarrow> string \<Rightarrow> string list" where
  "norm_step initial_slashes new_comps part =
     (if part = [] \<or> part = ''.'' then new_comps
      else if part \<noteq> ''..'' \<or> (initial_slashes = 0 \<and> new_comps = [])
              \<or> (new_comps \<noteq> [] \<and> last new_comps = ''..'')
           then new_comps @ [part]
      else if new_comps \<noteq> [] then butlast new_comps
      else new_comps)"

fun join_sep :: "string list \<Rightarrow> string" where
  "join_sep [] = []"
| "join_sep [c] = c"
| "join_sep (c # cs) = c @ CHR ''/'' # join_sep cs"

definition os_path_normpath :: "path \<Rightarrow> path" where
  "os_path_normpath p =
     (if p = [] then ''.''
      else
        let initial_slashes =
              (if prefix ''/'' p then (if prefix ''//'' p \<and> \<not> prefix ''///'' p then 2 else 1)
               else (0::nat));
            comps = foldl (norm_step initial_slashes) [] (split_sep p);
            r = replicate initial_slashes (CHR ''/'') @ join_sep comps
        in if r = [] then ''.'' else r)"

definition abspath_in :: "path \<Rightarrow> path \<Rightarrow> path" where
  "abspath_in working_dir p =
     os_path_normpath (if os_path_isabs p then p else os_path_join working_dir p)"

text \<open>
  The directories above an absolute normal path, the root first: what
  \<^verbatim>\<open>os.makedirs\<close> creates on the way to its leaf.
\<close>

definition ancestors :: "path \<Rightarrow> path list" where
  "ancestors k =
     (if os_path_isabs k then [''/''] else []) @
     [take i k. i \<leftarrow> [1..<length k], k ! i = CHR ''/'']"

subsection \<open>The world: files, directories, the temporary directory, subprocesses\<close>

text \<open>
  A file is named by the absolute normal path that its path string resolves to in the
  working directory (\<open>key\<close>; symbolic links are not modelled). The directory that
  \<^verbatim>\<open>tempfile.TemporaryDirectory()\<close> creates is new and private to the invocation, so no
  argument path names a file in it: its files are kept in a store of their own (\<open>tmp\<close>),
  under their file names, and \<^verbatim>\<open>os.path.join(tmp_dir, name)\<close> is the location
  \<open>InTmp name\<close>; \<open>tmp_name\<close> is the name the directory got. The store is empty when the \<^verbatim>\<open>with\<close> block is entered and is emptied
  when the block is left, by \<^verbatim>\<open>return\<close> or by an exception.
\<close>

datatype loc = Path path | InTmp string

datatype tmpdir = TmpDir

definition tmp_join :: "tmpdir \<Rightarrow> string \<Rightarrow> loc" where
  "tmp_join tmp_dir name = InTmp name"

text \<open>
  The exceptions. The message of \<^verbatim>\<open>FileNotFoundError\<close> and \<^verbatim>\<open>ValueError\<close> is
  represented by the location it names; \<^verbatim>\<open>CalledProcessError\<close> carries the exit code
  and the captured output and error streams; \<open>OSError\<close> stands for the other errors of
  the file system (\<^verbatim>\<open>IsADirectoryError\<close>, \<^verbatim>\<open>FileExistsError\<close>).
\<close>

datatype error =
    FileNotFoundError loc
  | ValueError loc
  | CalledProcessError int string string
  | OSError loc

text \<open>
  What \<^verbatim>\<open>subprocess.run(cmd, capture_output=True)\<close> observes of the external tool: the
  exit code, the two captured streams, and the image file as the tool leaves it. The tool
  is a parameter of the model: a function of the command's program name and options, of
  the image file and of the file named by \<^verbatim>\<open>-xmp<=\<close>. It touches no other file.
\<close>

record completed =
  returncode :: int
  stdout :: string
  stderr :: string
  image_after :: "bytes option"

type_synonym tool = "string list \<Rightarrow> bytes option \<Rightarrow> bytes option \<Rightarrow> completed"

record invocation =
  cmd :: "string list"
  image_before :: "bytes option"
  xmp_given :: "bytes option"
  outcome :: completed

record world =
  files :: "path \<rightharpoonup> bytes"
  dirs :: "path set"
  dir_size :: "path \<Rightarrow> nat"
  cwd :: path
  tmp_name :: path
  tmp :: "string \<rightharpoonup> bytes"
  runs :: "invocation list"

type_synonym 'a io = "world \<Rightarrow> (error + 'a) \<times> world"

definition bind_io :: "'a io \<Rightarrow> ('a \<Rightarrow> 'b io) \<Rightarrow> 'b io" where
  "bind_io m f = (\<lambda>w. case m w of (Inl e, w') \<Rightarrow> (Inl e, w') | (Inr x, w') \<Rightarrow> f x w')"

definition return_io :: "'a \<Rightarrow> 'a io" where
  "return_io x = (\<lambda>w. (Inr x, w))"

definition raise_io :: "error \<Rightarrow> 'a io" where
  "raise_io e = (\<lambda>w. (Inl e, w))"

definition key :: "world \<Rightarrow> path \<Rightarrow> path" where
  "key w p = abspath_in (cwd w) p"

text \<open>\<^verbatim>\<open>os.path.abspath\<close> reads the working directory of the process.\<close>

definition os_path_abspath :: "path \<Rightarrow> path io" where
  "os_path_abspath p w = (Inr (abspath_in (cwd w) p), w)"

definition read_file :: "world \<Rightarrow> loc \<Rightarrow> bytes option" where
  "read_file w l = (case l of Path p \<Rightarrow> files w (key w p) | InTmp n \<Rightarrow> tmp w n)"

definition write_file :: "loc \<Rightarrow> bytes option \<Rightarrow> world \<Rightarrow> world" where
  "write_file l b w =
     (case l of
        Path p \<Rightarrow> w\<lparr>files := (files w)(key w p := b)\<rparr>
      | InTmp n \<Rightarrow> w\<lparr>tmp := (tmp w)(n := b)\<rparr>)"

definition is_dir :: "world \<Rightarrow> loc \<Rightarrow> bool" where
  "is_dir w l = (case l of Path p \<Rightarrow> key w p \<in> dirs w | InTmp n \<Rightarrow> False)"

definition os_path_exists :: "loc \<Rightarrow> bool io" where
  "os_path_exists l w = (Inr (read_file w l \<noteq> None \<or> is_dir w l), w)"

text \<open>The path string of a location, as it is written into a command line.\<close>

definition fspath :: "world \<Rightarrow> loc \<Rightarrow> path" where
  "fspath w l = (case l of Path p \<Rightarrow> p | InTmp n \<Rightarrow> os_path_join (tmp_name w) n)"

text \<open>\<^verbatim>\<open>os.path.getsize\<close>: the length of a file, what \<^verbatim>\<open>stat\<close> reports for a directory.\<close>

definition os_path_getsize :: "loc \<Rightarrow> nat io" where
  "os_path_getsize l w =
     (case read_file w l of
        Some b \<Rightarrow> (Inr (length b), w)
      | None \<Rightarrow>
          (case l of
             Path p \<Rightarrow> if key w p \<in> dirs w then (Inr (dir_size w (key w p)), w)
                       else (Inl (FileNotFoundError l), w)
           | InTmp n \<Rightarrow> (Inl (FileNotFoundError l), w)))"

text \<open>\<^verbatim>\<open>open(l, "rb").read()\<close> and \<^verbatim>\<open>open(l, "rb").read(2)\<close>.\<close>

definition read_bytes :: "loc \<Rightarrow> bytes io" where
  "read_bytes l w =
     (case read_file w l of
        Some b \<Rightarrow> (Inr b, w)
      | None \<Rightarrow> if is_dir w l then (Inl (OSError l), w) else (Inl (FileNotFoundError l), w))"

text \<open>\<^verbatim>\<open>open(l, "w").write(s)\<close>: the file is created or truncated.\<close>

definition write_text :: "loc \<Rightarrow> string \<Rightarrow> unit io" where
  "write_text l s w =
     (if is_dir w l then (Inl (OSError l), w) else (Inr (), write_file l (Some s) w))"

text \<open>\<^verbatim>\<open>open(l, "ab").write(b)\<close>: the file is created when missing, else extended.\<close>

definition append_bytes :: "loc \<Rightarrow> bytes \<Rightarrow> unit io" where
  "append_bytes l b w =
     (if is_dir w l then (Inl (OSError l), w)
      else (Inr (), write_file l (Some ((case read_file w l of None \<Rightarrow> [] | Some old \<Rightarrow> old) @ b)) w))"

text \<open>\<^verbatim>\<open>os.remove\<close> deletes a file and raises on anything else.\<close>

definition os_remove :: "loc \<Rightarrow> unit io" where
  "os_remove l w =
     (case read_file w l of
        Some b \<Rightarrow> (Inr (), write_file l None w)
      | None \<Rightarrow> if is_dir w l then (Inl (OSError l), w) else (Inl (FileNotFoundError l), w))"

text \<open>
  \<^verbatim>\<open>os.makedirs(p, exist_ok=True)\<close> creates the directory and the missing ones above it;
  it raises when the path or one above it is a file.
\<close>

definition os_makedirs :: "path \<Rightarrow> unit io" where
  "os_makedirs p w =
     (let k = key w p in
      if \<exists>a \<in> set (ancestors k @ [k]). files w a \<noteq> None then (Inl (OSError (Path p)), w)
      else (Inr (), w\<lparr>dirs := dirs w \<union> set (ancestors k @ [k])\<rparr>))"

text \<open>\<^verbatim>\<open>shutil.copy2(src, dst)\<close> with \<open>dst\<close> a file name: the content is copied.\<close>

definition shutil_copy2 :: "loc \<Rightarrow> loc \<Rightarrow> unit io" where
  "shutil_copy2 src dst =
     bind_io (read_bytes src) (\<lambda>b. write_text dst b)"

text \<open>
  \<^verbatim>\<open>shutil.move(src, dst)\<close> where \<open>dst\<close> is not a directory (the callers have removed
  the destination, or failed on it, before): \<open>dst\<close> gets the content and \<open>src\<close> is gone.
\<close>

definition shutil_move :: "loc \<Rightarrow> loc \<Rightarrow> unit io" where
  "shutil_move src dst w =
     (case read_file w src of
        None \<Rightarrow> (Inl (FileNotFoundError src), w)
      | Some b \<Rightarrow> (Inr (), write_file src None (write_file dst (Some b) w)))"

text \<open>
  \<^verbatim>\<open>with tempfile.TemporaryDirectory() as tmp_dir\<close>: the body runs with an empty
  temporary directory, which is removed with all it holds on every way out.
\<close>

definition with_TemporaryDirectory :: "(tmpdir \<Rightarrow> 'a io) \<Rightarrow> 'a io" where
  "with_TemporaryDirectory body w =
     (case body TmpDir (w\<lparr>tmp := Map.empty\<rparr>) of (r, w') \<Rightarrow> (r, w'\<lparr>tmp := Map.empty\<rparr>))"

text \<open>
  \<^verbatim>\<open>subprocess.run(cmd, check=True, capture_output=True)\<close> on an ExifTool command that
  names the image \<open>file_path\<close> and the descriptor \<open>xmp_path\<close>: the tool runs, the image
  is what the tool leaves, the invocation is logged, and a non-zero exit code raises
  \<^verbatim>\<open>CalledProcessError\<close>.
\<close>

definition subprocess_run_check :: "tool \<Rightarrow> string list \<Rightarrow> loc \<Rightarrow> loc \<Rightarrow> completed io" where
  "subprocess_run_check exiftool command file_path xmp_path w =
     (let img = read_file w file_path;
          xmp = read_file w xmp_path;
          r = exiftool command img xmp;
          w' = (write_file file_path (image_after r) w)
                 \<lparr>runs := runs w @ [\<lparr>cmd = command, image_before = img, xmp_given = xmp, outcome = r\<rparr>]\<rparr>
      in if returncode r \<noteq> 0
         then (Inl (CalledProcessError (returncode r) (stdout r) (stderr r)), w')
         else (Inr r, w'))"


subsection \<open>The descriptors\<close>

text \<open>
  The tone-mapping parameters are a \<^verbatim>\<open>dict\<close>. The scripts do one thing with a parameter
  value, which is to format it into the descriptor, so a value is represented by the text
  that \<^verbatim>\<open>str\<close> gives for it: \<^verbatim>\<open>0.0\<close> is \<open>''0.0''\<close>, \<^verbatim>\<open>2.1\<close> is
  \<open>''2.1''\<close>.
\<close>

type_synonym pyval = string
type_synonym params = "string \<rightharpoonup> pyval"

definition dict_get :: "params \<Rightarrow> string \<Rightarrow> pyval \<Rightarrow> pyval" where
  "dict_get d k default_value = (case d k of None \<Rightarrow> default_value | Some v \<Rightarrow> v)"

text \<open>\<^verbatim>\<open>GenMotionPhoto.create_xmp_file\<close>: the f-string, then the file.\<close>

definition motion_xmp_content :: "nat \<Rightarrow> nat \<Rightarrow> string" where
  \<open>motion_xmp_content image_length video_length = join_lines [
      ''<x:xmpmeta xmlns:x="adobe:ns:meta/" x:xmptk="Adobe XMP Core 5.1.0">'',
      '' <rdf:RDF xmlns:rdf="http://www.w3.org/1999/02/22-rdf-syntax-ns#">'',
      ''  <rdf:Description rdf:about=""'',
      ''    xmlns:GCamera="http://ns.google.com/photos/1.0/camera/"'',
      ''    xmlns:GContainer="http://ns.google.com/photos/1.0/container/"'',
      ''    xmlns:Item="http://ns.google.com/photos/1.0/container/item/">'',
      ''   <GCamera:MotionPhoto>1</GCamera:MotionPhoto>'',
      ''   <GCamera:MotionPhotoVersion>1</GCamera:MotionPhotoVersion>'',
      ''   <GCamera:MotionPhotoPresentationTimestampUs>0</GCamera:MotionPhotoPresentationTimestampUs>'',
      ''   <GContainer:Directory>'',
      ''    <rdf:Seq>'',
      ''     <rdf:li rdf:parseType="Resource">'',
      ''      <Item:Mime>image/jpeg</Item:Mime>'',
      ''      <Item:Semantic>Primary</Item:Semantic>'',
      ''      <Item:Length>'' @ show_nat image_length @ ''</Item:Length>'',
      ''      <Item:Padding>0</Item:Padding>'',
      ''     </rdf:li>'',
      ''     <rdf:li rdf:parseType="Resource">'',
      ''      <Item:Mime>video/mp4</Item:Mime>'',
      ''      <Item:Semantic>MotionPhoto</Item:Semantic>'',
      ''      <Item:Length>'' @ show_nat video_length @ ''</Item:Length>'',
      ''      <Item:Padding>0</Item:Padding>'',
      ''     </rdf:li>'',
      ''    </rdf:Seq>'',
      ''   </GContainer:Directory>'',
      ''  </rdf:Description>'',
      '' </rdf:RDF>'',
      ''</x:xmpmeta>'']\<close>

definition create_xmp_file :: "nat \<Rightarrow> nat \<Rightarrow> tmpdir \<Rightarrow> loc io" where
  "create_xmp_file image_length video_length tmp_dir =
     (let xmp_content = motion_xmp_content image_length video_length;
          xmp_path = tmp_join tmp_dir ''motion.xmp''
      in bind_io (write_text xmp_path (strip xmp_content)) (\<lambda>_. return_io xmp_path))"

text \<open>
  \<^verbatim>\<open>GenUltraHDRPhoto.create_ultrahdr_xmp\<close>. The template does not mention
  \<open>image_length\<close>.
\<close>

definition ultrahdr_xmp_content :: "nat \<Rightarrow> nat \<Rightarrow> params \<Rightarrow> string" where
  \<open>ultrahdr_xmp_content image_length gainmap_length params =
    (let gm_min = dict_get params ''gainMapMin'' ''0.0'';
         gm_max = dict_get params ''gainMapMax'' ''1.0'';
         gamma = dict_get params ''gamma'' ''1.0'';
         h_min = dict_get params ''hdrCapacityMin'' ''0.0'';
         h_max = dict_get params ''hdrCapacityMax'' ''2.0''
     in join_lines [
      ''<x:xmpmeta xmlns:x="adobe:ns:meta/" x:xmptk="Adobe XMP Core 5.1.0">'',
      '' <rdf:RDF xmlns:rdf="http://www.w3.org/1999/02/22-rdf-syntax-ns#">'',
      ''  <rdf:Description rdf:about=""'',
      ''    xmlns:GContainer="http://ns.google.com/photos/1.0/container/"'',
      ''    xmlns:Item="http://ns.google.com/photos/1.0/container/item/"'',
      ''    xmlns:hdrgm="http://ns.adobe.com/hdr-gain-map/1.0/">'',
      ''   <hdrgm:Version>1.0</hdrgm:Version>'',
      ''   <hdrgm:GainMapMin>'' @ gm_min @ ''</hdrgm:GainMapMin>'',
      ''   <hdrgm:GainMapMax>'' @ gm_max @ ''</hdrgm:GainMapMax>'',
      ''   <hdrgm:Gamma>'' @ gamma @ ''</hdrgm:Gamma>'',
      ''   <hdrgm:OffsetSDR>0.015625</hdrgm:OffsetSDR>'',
      ''   <hdrgm:OffsetHDR>0.015625</hdrgm:OffsetHDR>'',
      ''   <hdrgm:HDRCapacityMin>'' @ h_min @ ''</hdrgm:HDRCapacityMin>'',
      ''   <hdrgm:HDRCapacityMax>'' @ h_max @ ''</hdrgm:HDRCapacityMax>'',
      ''   <hdrgm:BaseRendition>SDR</hdrgm:BaseRendition>'',
      ''   <GContainer:Directory>'',
      ''    <rdf:Seq>'',
      ''     <rdf:li rdf:parseType="Resource">'',
      ''      <Item:Mime>image/jpeg</Item:Mime>'',
      ''      <Item:Semantic>Primary</Item:Semantic>'',
      ''      <Item:Length>0</Item:Length>'',
      ''      <Item:Padding>0</Item:Padding>'',
      ''     </rdf:li>'',
      ''     <rdf:li rdf:parseType="Resource">'',
      ''      <Item:Mime>image/jpeg</Item:Mime>'',
      ''      <Item:Semantic>GainMap</Item:Semantic>'',
      ''      <Item:Length>'' @ show_nat gainmap_length @ ''</Item:Length>'',
      ''      <Item:Padding>0</Item:Padding>'',
      ''     </rdf:li>'',
      ''    </rdf:Seq>'',
      ''   </GContainer:Directory>'',
      ''  </rdf:Description>'',
      '' </rdf:RDF>'',
      ''</x:xmpmeta>''])\<close>

definition create_ultrahdr_xmp :: "nat \<Rightarrow> nat \<Rightarrow> params \<Rightarrow> tmpdir \<Rightarrow> loc io" where
  "create_ultrahdr_xmp image_length gainmap_length params tmp_dir =
     (let xmp_content = ultrahdr_xmp_content image_length gainmap_length params;
          xmp_path = tmp_join tmp_dir ''ultrahdr.xmp''
      in bind_io (write_text xmp_path (strip xmp_content)) (\<lambda>_. return_io xmp_path))"

text \<open>\<^verbatim>\<open>GenUltraHdrMotionPhoto.create_combined_xmp\<close>.\<close>

definition combined_xmp_content :: "nat \<Rightarrow> nat \<Rightarrow> nat \<Rightarrow> params \<Rightarrow> string" where
  \<open>combined_xmp_content sdr_len gm_len video_len params =
    (let gm_min = dict_get params ''gainMapMin'' ''0.0'';
         gm_max = dict_get params ''gainMapMax'' ''2.1'';
         gamma = dict_get params ''gamma'' ''1.0'';
         h_max = dict_get params ''hdrCapacityMax'' ''2.1''
     in join_lines [
      ''<x:xmpmeta xmlns:x="adobe:ns:meta/" x:xmptk="Adobe XMP Core 5.1.0">'',
      '' <rdf:RDF xmlns:rdf="http://www.w3.org/1999/02/22-rdf-syntax-ns#">'',
      ''  <rdf:Description rdf:about=""'',
      ''    xmlns:GCamera="http://ns.google.com/photos/1.0/camera/"'',
      ''    xmlns:GContainer="http://ns.google.com/photos/1.0/container/"'',
      ''    xmlns:Item="http://ns.google.com/photos/1.0/container/item/"'',
      ''    xmlns:hdrgm="http://ns.adobe.com/hdr-gain-map/1.0/">'',
      ''   <GCamera:MotionPhoto>1</GCamera:MotionPhoto>'',
      ''   <GCamera:MotionPhotoVersion>1</GCamera:MotionPhotoVersion>'',
      ''   <hdrgm:Version>1.0</hdrgm:Version>'',
      ''   <hdrgm:GainMapMin>'' @ gm_min @ ''</hdrgm:GainMapMin>'',
      ''   <hdrgm:GainMapMax>'' @ gm_max @ ''</hdrgm:GainMapMax>'',
      ''   <hdrgm:Gamma>'' @ gamma @ ''</hdrgm:Gamma>'',
      ''   <hdrgm:HDRCapacityMax>'' @ h_max @ ''</hdrgm:HDRCapacityMax>'',
      ''   <hdrgm:BaseRendition>SDR</hdrgm:BaseRendition>'',
      ''   <GContainer:Directory>'',
      ''    <rdf:Seq>'',
      ''     <rdf:li rdf:parseType="Resource">'',
      ''      <Item:Mime>image/jpeg</Item:Mime>'',
      ''      <Item:Semantic>Primary</Item:Semantic>'',
      ''      <Item:Length>'' @ show_nat sdr_len @ ''</Item:Length>'',
      ''     </rdf:li>'',
      ''     <rdf:li rdf:parseType="Resource">'',
      ''      <Item:Mime>image/jpeg</Item:Mime>'',
      ''      <Item:Semantic>GainMap</Item:Semantic>'',
      ''      <Item:Length>'' @ show_nat gm_len @ ''</Item:Length>'',
      ''     </rdf:li>'',
      ''     <rdf:li rdf:parseType="Resource">'',
      ''      <Item:Mime>video/mp4</Item:Mime>'',
      ''      <Item:Semantic>MotionPhoto</Item:Semantic>'',
      ''      <Item:Length>'' @ show_nat video_len @ ''</Item:Length>'',
      ''     </rdf:li>'',
      ''    </rdf:Seq>'',
      ''   </GContainer:Directory>'',
      ''  </rdf:Description>'',
      '' </rdf:RDF>'',
      ''</x:xmpmeta>''])\<close>

definition create_combined_xmp :: "nat \<Rightarrow> nat \<Rightarrow> nat \<Rightarrow> params \<Rightarrow> tmpdir \<Rightarrow> loc io" where
  "create_combined_xmp sdr_len gm_len video_len params tmp_dir =
     (let xmp_content = combined_xmp_content sdr_len gm_len video_len params;
          xmp_path = tmp_join tmp_dir ''combined.xmp''
      in bind_io (write_text xmp_path (strip xmp_content)) (\<lambda>_. return_io xmp_path))"

text \<open>
  Reading a descriptor back: the texts of the elements \<open><tag>\<close>, in the order of the
  document. A text ends at the next \<open><\<close>.
\<close>

fun element_texts :: "string \<Rightarrow> string \<Rightarrow> string list" where
  "element_texts tag [] = []"
| "element_texts tag (c # cs) =
     (if prefix (CHR ''<'' # tag @ ''>'') (c # cs)
      then takeWhile (\<lambda>x. x \<noteq> CHR ''<'') (drop (length tag + 1) cs) # element_texts tag cs
      else element_texts tag cs)"


subsection \<open>The injectors\<close>

text \<open>
  \<^verbatim>\<open>GenMotionPhoto.apply_metadata\<close>. The \<^verbatim>\<open>except\<close> clause logs the captured error
  stream and raises the exception again; logging is not part of the model.
\<close>

definition apply_metadata :: "tool \<Rightarrow> loc \<Rightarrow> loc \<Rightarrow> string \<Rightarrow> bool io" where
  "apply_metadata exiftool file_path xmp_path exiftool_path w =
     (let command = [exiftool_path, ''-overwrite_original'', ''-n'',
                     ''-xmp<='' @ fspath w xmp_path, fspath w file_path]
      in bind_io (subprocess_run_check exiftool command file_path xmp_path)
           (\<lambda>result. return_io True) w)"

text \<open>\<^verbatim>\<open>GenUltraHDRPhoto.apply_ultrahdr_metadata\<close>.\<close>

definition apply_ultrahdr_metadata :: "tool \<Rightarrow> loc \<Rightarrow> loc \<Rightarrow> unit io" where
  "apply_ultrahdr_metadata exiftool file_path xmp_path w =
     (let command = [''exiftool'', ''-overwrite_original'', ''-xmp<='' @ fspath w xmp_path,
                     ''-MPFVersion=0100'', ''-NumberOfImages=2'', fspath w file_path]
      in bind_io (subprocess_run_check exiftool command file_path xmp_path)
           (\<lambda>result. return_io ()) w)"

text \<open>\<^verbatim>\<open>GenUltraHdrMotionPhoto.apply_metadata\<close>.\<close>

definition apply_metadata_combined :: "tool \<Rightarrow> loc \<Rightarrow> loc \<Rightarrow> unit io" where
  "apply_metadata_combined exiftool file_path xmp_path w =
     (let command = [''exiftool'', ''-overwrite_original'', ''-n'', ''-xmp<='' @ fspath w xmp_path,
                     ''-MPFVersion=0100'', ''-NumberOfImages=3'', fspath w file_path]
      in bind_io (subprocess_run_check exiftool command file_path xmp_path)
           (\<lambda>result. return_io ()) w)"

subsection \<open>The pipelines\<close>

text \<open>The step \<^verbatim>\<open>if os.path.exists(output_path): os.remove(output_path)\<close>.\<close>

definition remove_if_exists :: "loc \<Rightarrow> unit io" where
  "remove_if_exists output_path =
     bind_io (os_path_exists output_path)
       (\<lambda>e. if e then os_remove output_path else return_io ())"

text \<open>\<^verbatim>\<open>GenMotionPhoto.gen_motion_photo\<close>.\<close>

definition gen_motion_photo :: "tool \<Rightarrow> path \<Rightarrow> path \<Rightarrow> path \<Rightarrow> unit io" where
  "gen_motion_photo exiftool photo_path video_path output_dir =
      bind_io (os_path_abspath photo_path) (\<lambda>abs_photo.
      bind_io (os_path_abspath video_path) (\<lambda>abs_video.
      let file_name = os_path_basename photo_path in
      bind_io (os_path_abspath (os_path_join output_dir file_name)) (\<lambda>output_path.
      bind_io (os_makedirs output_dir) (\<lambda>_.
      bind_io (os_path_exists (Path abs_video)) (\<lambda>video_exists.
      if \<not> video_exists then raise_io (FileNotFoundError (Path abs_video)) else
      bind_io (os_path_getsize (Path abs_video)) (\<lambda>video_size.
      bind_io (with_TemporaryDirectory (\<lambda>tmp_dir.
        let tmp_photo = tmp_join tmp_dir ''temp_image.jpg'' in
        bind_io (shutil_copy2 (Path abs_photo) tmp_photo) (\<lambda>_.
        bind_io (os_path_getsize tmp_photo) (\<lambda>current_size.
        bind_io (create_xmp_file current_size video_size tmp_dir) (\<lambda>xmp_file.
        bind_io (apply_metadata exiftool tmp_photo xmp_file ''exiftool'') (\<lambda>_.
        bind_io (os_path_getsize tmp_photo) (\<lambda>final_image_size.
        bind_io (create_xmp_file final_image_size video_size tmp_dir) (\<lambda>xmp_file_final.
        bind_io (apply_metadata exiftool tmp_photo xmp_file_final ''exiftool'') (\<lambda>_.
        bind_io (remove_if_exists (Path output_path)) (\<lambda>_.
        bind_io (shutil_move tmp_photo (Path output_path)) (\<lambda>_.
        bind_io (os_path_getsize (Path output_path)) (\<lambda>final_offset.
        return_io ())))))))))))) (\<lambda>_.
      bind_io (read_bytes (Path abs_video)) (\<lambda>video_data.
      append_bytes (Path output_path) video_data))))))))"

text \<open>
  \<^verbatim>\<open>GenUltraHDRPhoto.gen_ultra_hdr\<close>. The loop over \<^verbatim>\<open>[abs_sdr, abs_gm]\<close> checks
  that each file exists and starts with the two bytes \<^verbatim>\<open>FF D8\<close>.
\<close>

fun check_jpeg_files :: "path list \<Rightarrow> unit io" where
  "check_jpeg_files [] = return_io ()"
| "check_jpeg_files (p # ps) =
     bind_io (os_path_exists (Path p)) (\<lambda>e.
     if \<not> e then raise_io (FileNotFoundError (Path p)) else
     bind_io (read_bytes (Path p)) (\<lambda>content.
     if take 2 content \<noteq> [CHR 0xFF, CHR 0xD8] then raise_io (ValueError (Path p))
     else check_jpeg_files ps))"

definition gen_ultra_hdr :: "tool \<Rightarrow> path \<Rightarrow> path \<Rightarrow> path \<Rightarrow> params \<Rightarrow> unit io" where
  "gen_ultra_hdr exiftool sdr_path gainmap_path output_path params =
      bind_io (os_path_abspath sdr_path) (\<lambda>abs_sdr.
      bind_io (os_path_abspath gainmap_path) (\<lambda>abs_gm.
      bind_io (check_jpeg_files [abs_sdr, abs_gm]) (\<lambda>_.
      bind_io (os_path_getsize (Path abs_gm)) (\<lambda>gm_size.
      bind_io (with_TemporaryDirectory (\<lambda>tmp_dir.
        let tmp_output = tmp_join tmp_dir ''hdr_base.jpg'' in
        bind_io (shutil_copy2 (Path abs_sdr) tmp_output) (\<lambda>_.
        bind_io (create_ultrahdr_xmp 0 gm_size params tmp_dir) (\<lambda>xmp_file.
        bind_io (apply_ultrahdr_metadata exiftool tmp_output xmp_file) (\<lambda>_.
        bind_io (os_path_getsize tmp_output) (\<lambda>sdr_final_size.
        bind_io (create_ultrahdr_xmp sdr_final_size gm_size params tmp_dir) (\<lambda>xmp_file_final.
        bind_io (apply_ultrahdr_metadata exiftool tmp_output xmp_file_final) (\<lambda>_.
        bind_io (remove_if_exists (Path output_path)) (\<lambda>_.
        shutil_move tmp_output (Path output_path)))))))))) (\<lambda>_.
      bind_io (read_bytes (Path abs_gm)) (\<lambda>gm_data.
      append_bytes (Path output_path) gm_data))))))"

text \<open>
  \<^verbatim>\<open>GenUltraHdrMotionPhoto.gen_hdr_motion_photo\<close>. The output is opened for appending
  before the gain map and the video are read, one after the other; each write is taken
  to reach the file at once.
\<close>

definition gen_hdr_motion_photo :: "tool \<Rightarrow> path \<Rightarrow> path \<Rightarrow> path \<Rightarrow> path \<Rightarrow> params \<Rightarrow> unit io" where
  "gen_hdr_motion_photo exiftool sdr_path gm_path video_path output_path params =
     bind_io (os_path_getsize (Path gm_path)) (\<lambda>gm_size.
     bind_io (os_path_getsize (Path video_path)) (\<lambda>video_size.
     bind_io (with_TemporaryDirectory (\<lambda>tmp_dir.
       let tmp_jpg = tmp_join tmp_dir ''base.jpg'' in
       bind_io (shutil_copy2 (Path sdr_path) tmp_jpg) (\<lambda>_.
       bind_io (create_combined_xmp 0 gm_size video_size params tmp_dir) (\<lambda>xmp.
       bind_io (apply_metadata_combined exiftool tmp_jpg xmp) (\<lambda>_.
       bind_io (os_path_getsize tmp_jpg) (\<lambda>final_sdr_size.
       bind_io (create_combined_xmp final_sdr_size gm_size video_size params tmp_dir) (\<lambda>xmp_final.
       bind_io (apply_metadata_combined exiftool tmp_jpg xmp_final) (\<lambda>_.
       bind_io (remove_if_exists (Path output_path)) (\<lambda>_.
       shutil_move tmp_jpg (Path output_path)))))))))) (\<lambda>_.
     bind_io (append_bytes (Path output_path) []) (\<lambda>_.
     bind_io (read_bytes (Path gm_path)) (\<lambda>gm_data.
     bind_io (append_bytes (Path output_path) gm_data) (\<lambda>_.
     bind_io (read_bytes (Path video_path)) (\<lambda>video_data.
     append_bytes (Path output_path) video_data)))))))"


subsection \<open>Notions used in the statements\<close>

text \<open>
  The command lines that the three injectors build for the files of the temporary
  directory the pipelines use.
\<close>

definition motion_command :: "world \<Rightarrow> string list" where
  "motion_command w = [''exiftool'', ''-overwrite_original'', ''-n'',
     ''-xmp<='' @ os_path_join (tmp_name w) ''motion.xmp'',
     os_path_join (tmp_name w) ''temp_image.jpg'']"

definition ultrahdr_command :: "world \<Rightarrow> string list" where
  "ultrahdr_command w = [''exiftool'', ''-overwrite_original'',
     ''-xmp<='' @ os_path_join (tmp_name w) ''ultrahdr.xmp'',
     ''-MPFVersion=0100'', ''-NumberOfImages=2'', os_path_join (tmp_name w) ''hdr_base.jpg'']"

definition combined_command :: "world \<Rightarrow> string list" where
  "combined_command w = [''exiftool'', ''-overwrite_original'', ''-n'',
     ''-xmp<='' @ os_path_join (tmp_name w) ''combined.xmp'',
     ''-MPFVersion=0100'', ''-NumberOfImages=3'', os_path_join (tmp_name w) ''base.jpg'']"

text \<open>
  Tone-mapping parameters are numbers: the text of a number holds no \<open><\<close>. The
  predicate says so of the values stored under the five parameter names.
\<close>

definition hdr_keys :: "string list" where
  "hdr_keys = [''gainMapMin'', ''gainMapMax'', ''gamma'', ''hdrCapacityMin'', ''hdrCapacityMax'']"

definition plain_params :: "params \<Rightarrow> bool" where
  "plain_params params =
     (\<forall>k \<in> set hdr_keys. case params k of None \<Rightarrow> True | Some v \<Rightarrow> CHR ''<'' \<notin> set v)"

text \<open>
  A line is closed for a tag when each \<open><tag>\<close> in it is followed, in the line, by
  another \<open><\<close>: the text of the element ends in the line.
\<close>

fun closed_line :: "string \<Rightarrow> string \<Rightarrow> bool" where
  "closed_line tag [] = True"
| "closed_line tag (c # cs) =
     ((prefix (CHR ''<'' # tag @ ''>'') (c # cs) \<longrightarrow> CHR ''<'' \<in> set (drop (length tag + 1) cs))
      \<and> closed_line tag cs)"

text \<open>
  An action writes only the file \<open>k\<close> when, run in the working directory \<open>c\<close>, it
  leaves the working directory and every other file as they are, however it ends.
\<close>

definition writes_only :: "path \<Rightarrow> path \<Rightarrow> 'a io \<Rightarrow> bool" where
  "writes_only c k m =
     (\<forall>w r w'. cwd w = c \<longrightarrow> m w = (r, w') \<longrightarrow>
        cwd w' = c \<and> (\<forall>k'. k' \<noteq> k \<longrightarrow> files w' k' = files w k'))"

subsection \<open>Sample inputs\<close>

text \<open>
  A small world and four tools, for running the pipelines on concrete inputs: a
  directory \<open>/home/u\<close> with a primary image, a gain map and a clip; a tool that
  appends one byte to the image and exits with code 0, one that exits with code 1, one that
  exits with code 0 and writes a warning, and one that exits with code 1 on an image it
  has marked before.
\<close>

definition sample_world :: world where
  "sample_world =
     \<lparr>files = [''/home/u/sdr.jpg'' \<mapsto> [CHR 0xFF, CHR 0xD8, CHR ''a''],
               ''/home/u/gm.jpg'' \<mapsto> [CHR 0xFF, CHR 0xD8, CHR ''g''],
               ''/home/u/clip.mp4'' \<mapsto> ''vid''],
      dirs = {''/'', ''/home'', ''/home/u''},
      dir_size = (\<lambda>d. 4096),
      cwd = ''/home/u'',
      tmp_name = ''/tmp/tmpab12cd'',
      tmp = Map.empty,
      runs = []\<rparr>"

definition marking_tool :: tool where
  "marking_tool command img xmp =
     \<lparr>returncode = 0, stdout = ''    1 image files updated'', stderr = [],
      image_after = map_option (\<lambda>b. b @ ''M'') img\<rparr>"

definition failing_tool :: tool where
  "failing_tool command img xmp =
     \<lparr>returncode = 1, stdout = [], stderr = ''Error: bad format'', image_after = img\<rparr>"

definition warning_tool :: tool where
  "warning_tool command img xmp =
     \<lparr>returncode = 0, stdout = ''    1 image files updated'', stderr = ''Warning: minor'',
      image_after = map_option (\<lambda>b. b @ ''M'') img\<rparr>"

definition failing_second_tool :: tool where
  "failing_second_tool command img xmp =
     (if img = Some [CHR 0xFF, CHR 0xD8, CHR ''a''] then marking_tool command img xmp
      else failing_tool command img xmp)"

section \<open>Properties\<close>

subsection \<open>Numbers and descriptors\<close>

lemma digit_char_digit: "d < 10 \<Longrightarrow> digit_char d \<in> set ''0123456789''"
  unfolding digit_char_def by (rule nth_mem) simp

lemma show_nat_digits: "set (show_nat n) \<subseteq> set ''0123456789''"
proof (induction n rule: show_nat.induct)
  case (1 n)
  show ?case
  proof (cases "n < 10")
    case True
    then show ?thesis using digit_char_digit [of n] by (subst show_nat.simps) simp
  next
    case False
    then have "set (show_nat (n div 10)) \<subseteq> set ''0123456789''" using 1 by simp
    moreover have "digit_char (n mod 10) \<in> set ''0123456789''"
      by (rule digit_char_digit) simp
    ultimately show ?thesis using False by (subst show_nat.simps) simp
  qed
qed

lemma show_nat_plain: "CHR ''<'' \<notin> set (show_nat n)"
  using show_nat_digits [of n] by auto

lemma show_nat_0: "show_nat 0 = ''0''"
  by (subst show_nat.simps) (simp add: digit_char_def)

lemma element_texts_skip:
  "CHR ''<'' \<notin> set d \<Longrightarrow> element_texts tag (d @ rest) = element_texts tag rest"
  by (induction d) auto

lemma closed_line_skip:
  "CHR ''<'' \<notin> set d \<Longrightarrow> closed_line tag (d @ rest) = closed_line tag rest"
  by (induction d) auto

lemma takeWhile_plain:
  "CHR ''<'' \<notin> set d \<Longrightarrow> takeWhile (\<lambda>x. x \<noteq> CHR ''<'') (d @ CHR ''<'' # rest) = d"
  by (induction d) auto

lemma prefix_before:
  "x \<notin> set s \<Longrightarrow> prefix s (a @ x # r) \<longleftrightarrow> prefix s a"
proof (induction s arbitrary: a)
  case Nil
  then show ?case by simp
next
  case (Cons y s)
  then show ?case by (cases a) auto
qed

lemma element_texts_line:
  assumes "CHR 0x0A \<notin> set tag" and "closed_line tag l"
  shows "element_texts tag (l @ CHR 0x0A # rest) = element_texts tag l @ element_texts tag rest"
  using assms(2)
proof (induction l)
  case Nil
  then show ?case by simp
next
  case (Cons c l)
  have nl: "CHR 0x0A \<notin> set (CHR ''<'' # tag @ ''>'')" using assms(1) by simp
  have p: "prefix (CHR ''<'' # tag @ ''>'') ((c # l) @ CHR 0x0A # rest)
            \<longleftrightarrow> prefix (CHR ''<'' # tag @ ''>'') (c # l)"
    by (rule prefix_before [OF nl])
  have cl: "closed_line tag l" using Cons.prems by simp
  have IH: "element_texts tag (l @ CHR 0x0A # rest) = element_texts tag l @ element_texts tag rest"
    by (rule Cons.IH [OF cl])
  show ?case
  proof (cases "prefix (CHR ''<'' # tag @ ''>'') (c # l)")
    case True
    with Cons.prems have "CHR ''<'' \<in> set (drop (length tag + 1) l)" by simp
    then have "takeWhile (\<lambda>x. x \<noteq> CHR ''<'')
                 (drop (length tag + 1) l @ drop (length tag + 1 - length l) (CHR 0x0A # rest))
               = takeWhile (\<lambda>x. x \<noteq> CHR ''<'') (drop (length tag + 1) l)"
      by (intro takeWhile_append1 [where x="CHR ''<''"]) auto
    then have tw: "takeWhile (\<lambda>x. x \<noteq> CHR ''<'') (drop (length tag + 1) (l @ CHR 0x0A # rest))
               = takeWhile (\<lambda>x. x \<noteq> CHR ''<'') (drop (length tag + 1) l)"
      by simp
    have "element_texts tag ((c # l) @ CHR 0x0A # rest)
          = takeWhile (\<lambda>x. x \<noteq> CHR ''<'') (drop (length tag + 1) (l @ CHR 0x0A # rest))
            # element_texts tag (l @ CHR 0x0A # rest)"
      using True p by (simp del: drop_append)
    also have "\<dots> = takeWhile (\<lambda>x. x \<noteq> CHR ''<'') (drop (length tag + 1) l)
            # element_texts tag l @ element_texts tag rest"
      by (simp only: tw IH)
    also have "\<dots> = element_texts tag (c # l) @ element_texts tag rest"
      using True by simp
    finally show ?thesis .
  next
    case False
    have "element_texts tag ((c # l) @ CHR 0x0A # rest) = element_texts tag (l @ CHR 0x0A # rest)"
      using False p by simp
    also have "\<dots> = element_texts tag l @ element_texts tag rest" by (rule IH)
    also have "\<dots> = element_texts tag (c # l) @ element_texts tag rest"
      using False by simp
    finally show ?thesis .
  qed
qed

lemma element_texts_join_lines:
  assumes "CHR 0x0A \<notin> set tag" and "\<forall>l \<in> set ls. closed_line tag l"
  shows "element_texts tag (join_lines ls) = concat (map (element_texts tag) ls)"
  using assms(2)
proof (induction ls rule: join_lines.induct)
  case 1
  then show ?case by simp
next
  case (2 l)
  then show ?case by simp
next
  case (3 l v va)
  then show ?case using assms(1) by (simp add: element_texts_line)
qed

lemmas scan_simps = element_texts_skip closed_line_skip takeWhile_plain show_nat_plain

lemma element_texts_other:
  "c \<noteq> CHR ''<'' \<Longrightarrow> element_texts tag (c # cs) = element_texts tag cs"
  by simp

lemma element_texts_open:
  "element_texts tag (CHR ''<'' # cs) =
     (if prefix (tag @ ''>'') cs
      then takeWhile (\<lambda>x. x \<noteq> CHR ''<'') (drop (length tag + 1) cs) # element_texts tag cs
      else element_texts tag cs)"
  by simp

lemma closed_line_other:
  "c \<noteq> CHR ''<'' \<Longrightarrow> closed_line tag (c # cs) = closed_line tag cs"
  by simp

lemma closed_line_open:
  "closed_line tag (CHR ''<'' # cs) =
     ((prefix (tag @ ''>'') cs \<longrightarrow> CHR ''<'' \<in> set (drop (length tag + 1) cs)) \<and> closed_line tag cs)"
  by simp

lemmas scan2 = element_texts_other element_texts_open closed_line_other closed_line_open
  element_texts.simps(1) closed_line.simps(1) scan_simps

lemma dict_get_plain:
  "plain_params params \<Longrightarrow> k \<in> set hdr_keys \<Longrightarrow> CHR ''<'' \<notin> set d
     \<Longrightarrow> CHR ''<'' \<notin> set (dict_get params k d)"
  by (auto simp: plain_params_def dict_get_def split: option.splits)

lemma motion_fields:
  "element_texts ''Item:Length'' (motion_xmp_content a b) = [show_nat a, show_nat b]"
  "element_texts ''Item:Semantic'' (motion_xmp_content a b) = [''Primary'', ''MotionPhoto'']"
  unfolding motion_xmp_content_def
  by (subst element_texts_join_lines; simp add: scan2 del: element_texts.simps(2) closed_line.simps(2))+


lemma hdr_keys_mem:
  "''gainMapMin'' \<in> set hdr_keys" "''gainMapMax'' \<in> set hdr_keys" "''gamma'' \<in> set hdr_keys"
  "''hdrCapacityMin'' \<in> set hdr_keys" "''hdrCapacityMax'' \<in> set hdr_keys"
  by (simp_all add: hdr_keys_def)

lemma ultrahdr_fields:
  assumes "plain_params params"
  shows "element_texts ''Item:Length'' (ultrahdr_xmp_content a b params) = [''0'', show_nat b]"
    and "element_texts ''Item:Semantic'' (ultrahdr_xmp_content a b params) = [''Primary'', ''GainMap'']"
    and "element_texts ''hdrgm:GainMapMin'' (ultrahdr_xmp_content a b params)
           = [dict_get params ''gainMapMin'' ''0.0'']"
    and "element_texts ''hdrgm:GainMapMax'' (ultrahdr_xmp_content a b params)
           = [dict_get params ''gainMapMax'' ''1.0'']"
    and "element_texts ''hdrgm:Gamma'' (ultrahdr_xmp_content a b params)
           = [dict_get params ''gamma'' ''1.0'']"
    and "element_texts ''hdrgm:HDRCapacityMin'' (ultrahdr_xmp_content a b params)
           = [dict_get params ''hdrCapacityMin'' ''0.0'']"
    and "element_texts ''hdrgm:HDRCapacityMax'' (ultrahdr_xmp_content a b params)
           = [dict_get params ''hdrCapacityMax'' ''2.0'']"
proof -
  note [simp] = dict_get_plain [OF assms] hdr_keys_mem
  show "element_texts ''Item:Length'' (ultrahdr_xmp_content a b params) = [''0'', show_nat b]"
    unfolding ultrahdr_xmp_content_def Let_def
    by (subst element_texts_join_lines; simp add: scan2 del: element_texts.simps(2) closed_line.simps(2))
  show "element_texts ''Item:Semantic'' (ultrahdr_xmp_content a b params) = [''Primary'', ''GainMap'']"
    unfolding ultrahdr_xmp_content_def Let_def
    by (subst element_texts_join_lines; simp add: scan2 del: element_texts.simps(2) closed_line.simps(2))
  show "element_texts ''hdrgm:GainMapMin'' (ultrahdr_xmp_content a b params)
           = [dict_get params ''gainMapMin'' ''0.0'']"
    unfolding ultrahdr_xmp_content_def Let_def
    by (subst element_texts_join_lines; simp add: scan2 del: element_texts.simps(2) closed_line.simps(2))
  show "element_texts ''hdrgm:GainMapMax'' (ultrahdr_xmp_content a b params)
           = [dict_get params ''gainMapMax'' ''1.0'']"
    unfolding ultrahdr_xmp_content_def Let_def
    by (subst element_texts_join_lines; simp add: scan2 del: element_texts.simps(2) closed_line.simps(2))
  show "element_texts ''hdrgm:Gamma'' (ultrahdr_xmp_content a b params)
           = [dict_get params ''gamma'' ''1.0'']"
    unfolding ultrahdr_xmp_content_def Let_def
    by (subst element_texts_join_lines; simp add: scan2 del: element_texts.simps(2) closed_line.simps(2))
  show "element_texts ''hdrgm:HDRCapacityMin'' (ultrahdr_xmp_content a b params)
           = [dict_get params ''hdrCapacityMin'' ''0.0'']"
    unfolding ultrahdr_xmp_content_def Let_def
    by (subst element_texts_join_lines; simp add: scan2 del: element_texts.simps(2) closed_line.simps(2))
  show "element_texts ''hdrgm:HDRCapacityMax'' (ultrahdr_xmp_content a b params)
           = [dict_get params ''hdrCapacityMax'' ''2.0'']"
    unfolding ultrahdr_xmp_content_def Let_def
    by (subst element_texts_join_lines; simp add: scan2 del: element_texts.simps(2) closed_line.simps(2))
qed

lemma combined_fields:
  assumes "plain_params params"
  shows "element_texts ''Item:Length'' (combined_xmp_content a b c params)
           = [show_nat a, show_nat b, show_nat c]"
    and "element_texts ''Item:Semantic'' (combined_xmp_content a b c params)
           = [''Primary'', ''GainMap'', ''MotionPhoto'']"
    and "element_texts ''hdrgm:GainMapMin'' (combined_xmp_content a b c params)
           = [dict_get params ''gainMapMin'' ''0.0'']"
    and "element_texts ''hdrgm:GainMapMax'' (combined_xmp_content a b c params)
           = [dict_get params ''gainMapMax'' ''2.1'']"
    and "element_texts ''hdrgm:Gamma'' (combined_xmp_content a b c params)
           = [dict_get params ''gamma'' ''1.0'']"
    and "element_texts ''hdrgm:HDRCapacityMin'' (combined_xmp_content a b c params) = []"
    and "element_texts ''hdrgm:HDRCapacityMax'' (combined_xmp_content a b c params)
           = [dict_get params ''hdrCapacityMax'' ''2.1'']"
proof -
  note [simp] = dict_get_plain [OF assms] hdr_keys_mem
  show "element_texts ''Item:Length'' (combined_xmp_content a b c params)
           = [show_nat a, show_nat b, show_nat c]"
    unfolding combined_xmp_content_def Let_def
    by (subst element_texts_join_lines; simp add: scan2 del: element_texts.simps(2) closed_line.simps(2))
  show "element_texts ''Item:Semantic'' (combined_xmp_content a b c params)
           = [''Primary'', ''GainMap'', ''MotionPhoto'']"
    unfolding combined_xmp_content_def Let_def
    by (subst element_texts_join_lines; simp add: scan2 del: element_texts.simps(2) closed_line.simps(2))
  show "element_texts ''hdrgm:GainMapMin'' (combined_xmp_content a b c params)
           = [dict_get params ''gainMapMin'' ''0.0'']"
    unfolding combined_xmp_content_def Let_def
    by (subst element_texts_join_lines; simp add: scan2 del: element_texts.simps(2) closed_line.simps(2))
  show "element_texts ''hdrgm:GainMapMax'' (combined_xmp_content a b c params)
           = [dict_get params ''gainMapMax'' ''2.1'']"
    unfolding combined_xmp_content_def Let_def
    by (subst element_texts_join_lines; simp add: scan2 del: element_texts.simps(2) closed_line.simps(2))
  show "element_texts ''hdrgm:Gamma'' (combined_xmp_content a b c params)
           = [dict_get params ''gamma'' ''1.0'']"
    unfolding combined_xmp_content_def Let_def
    by (subst element_texts_join_lines; simp add: scan2 del: element_texts.simps(2) closed_line.simps(2))
  show "element_texts ''hdrgm:HDRCapacityMin'' (combined_xmp_content a b c params) = []"
    unfolding combined_xmp_content_def Let_def
    by (subst element_texts_join_lines; simp add: scan2 del: element_texts.simps(2) closed_line.simps(2))
  show "element_texts ''hdrgm:HDRCapacityMax'' (combined_xmp_content a b c params)
           = [dict_get params ''hdrCapacityMax'' ''2.1'']"
    unfolding combined_xmp_content_def Let_def
    by (subst element_texts_join_lines; simp add: scan2 del: element_texts.simps(2) closed_line.simps(2))
qed

lemma strip_id:
  assumes "s \<noteq> []" and "\<not> is_space (hd s)" and "\<not> is_space (last s)"
  shows "strip s = s"
proof -
  have 1: "dropWhile is_space s = s"
    using assms(2) by (simp add: dropWhile_eq_self_iff)
  have 2: "dropWhile is_space (rev s) = rev s"
    using assms(1,3) by (simp add: dropWhile_eq_self_iff hd_rev)
  show ?thesis by (simp add: strip_def 1 2)
qed

lemma hd_join_lines: "l \<noteq> [] \<Longrightarrow> hd (join_lines (l # ls)) = hd l"
  by (cases ls) auto

lemma join_lines_nonempty: "ls \<noteq> [] \<Longrightarrow> last ls \<noteq> [] \<Longrightarrow> join_lines ls \<noteq> []"
  by (induction ls rule: join_lines.induct) auto

lemma last_join_lines: "ls \<noteq> [] \<Longrightarrow> last ls \<noteq> [] \<Longrightarrow> last (join_lines ls) = last (last ls)"
proof (induction ls rule: join_lines.induct)
  case 1
  then show ?case by simp
next
  case (2 l)
  then show ?case by simp
next
  case (3 l v va)
  then have "join_lines (v # va) \<noteq> []" by (intro join_lines_nonempty) auto
  then show ?case using 3 by simp
qed

lemma strip_content [simp]:
  "strip (motion_xmp_content a b) = motion_xmp_content a b"
  "strip (ultrahdr_xmp_content a b params) = ultrahdr_xmp_content a b params"
  "strip (combined_xmp_content a b c params) = combined_xmp_content a b c params"
  unfolding motion_xmp_content_def ultrahdr_xmp_content_def combined_xmp_content_def Let_def
  by (rule strip_id; simp add: hd_join_lines last_join_lines join_lines_nonempty is_space_def
        del: join_lines.simps)+

subsection \<open>When a step returns\<close>

text \<open>
  One rule for each operation: it returns a value exactly when its precondition holds,
  and then the world is the given one. With these rules the simplifier runs a pipeline
  that is known to have returned.
\<close>

lemma key_upd [simp]:
  "key (w\<lparr>files := f\<rparr>) = key w" "key (w\<lparr>tmp := t\<rparr>) = key w"
  "key (w\<lparr>runs := r\<rparr>) = key w" "key (w\<lparr>dirs := d\<rparr>) = key w"
  by (simp_all add: key_def fun_eq_iff)

lemma read_file_simps [simp]:
  "read_file w (Path p) = files w (key w p)" "read_file w (InTmp n) = tmp w n"
  by (simp_all add: read_file_def)

lemma write_file_simps [simp]:
  "write_file (Path p) b w = w\<lparr>files := (files w)(key w p := b)\<rparr>"
  "write_file (InTmp n) b w = w\<lparr>tmp := (tmp w)(n := b)\<rparr>"
  by (simp_all add: write_file_def)

lemma is_dir_simps [simp]:
  "is_dir w (Path p) = (key w p \<in> dirs w)" "is_dir w (InTmp n) = False"
  by (simp_all add: is_dir_def)

lemma fspath_simps [simp]:
  "fspath w (Path p) = p" "fspath w (InTmp n) = os_path_join (tmp_name w) n"
  by (simp_all add: fspath_def)

lemma bind_io_Inr [simp]:
  "bind_io m f w = (Inr y, w') \<longleftrightarrow> (\<exists>x w1. m w = (Inr x, w1) \<and> f x w1 = (Inr y, w'))"
  by (auto simp: bind_io_def split: prod.splits sum.splits)

lemma os_path_abspath_Inr [simp]:
  "os_path_abspath p w = (Inr x, w') \<longleftrightarrow> x = key w p \<and> w' = w"
  by (auto simp: os_path_abspath_def key_def)

lemma return_io_Inr [simp]: "return_io x w = (Inr y, w') \<longleftrightarrow> y = x \<and> w' = w"
  by (auto simp: return_io_def)

lemma raise_io_Inr [simp]: "raise_io e w = (Inr y, w') \<longleftrightarrow> False"
  by (auto simp: raise_io_def)

lemma getsize_tmp_Inr [simp]:
  "os_path_getsize (InTmp n) w = (Inr x, w') \<longleftrightarrow> w' = w \<and> (\<exists>b. tmp w n = Some b \<and> x = length b)"
  by (auto simp: os_path_getsize_def split: option.splits)

lemma getsize_path_Inr [simp]:
  "os_path_getsize (Path p) w = (Inr x, w') \<longleftrightarrow>
     w' = w \<and> ((\<exists>b. files w (key w p) = Some b \<and> x = length b)
              \<or> (files w (key w p) = None \<and> key w p \<in> dirs w \<and> x = dir_size w (key w p)))"
  by (auto simp: os_path_getsize_def split: option.splits)

lemma exists_Inr [simp]:
  "os_path_exists l w = (Inr e, w') \<longleftrightarrow> w' = w \<and> e = (read_file w l \<noteq> None \<or> is_dir w l)"
  by (auto simp: os_path_exists_def)

lemma read_bytes_Inr [simp]:
  "read_bytes l w = (Inr b, w') \<longleftrightarrow> w' = w \<and> read_file w l = Some b"
  by (auto simp: read_bytes_def split: option.splits)

lemma write_text_Inr [simp]:
  "write_text l s w = (Inr u, w') \<longleftrightarrow> \<not> is_dir w l \<and> w' = write_file l (Some s) w"
  by (auto simp: write_text_def)

lemma append_bytes_Inr [simp]:
  "append_bytes l b w = (Inr u, w') \<longleftrightarrow>
     \<not> is_dir w l \<and> w' = write_file l (Some ((case read_file w l of None \<Rightarrow> [] | Some old \<Rightarrow> old) @ b)) w"
  by (auto simp: append_bytes_def)

lemma os_remove_Inr [simp]:
  "os_remove l w = (Inr u, w') \<longleftrightarrow> (\<exists>b. read_file w l = Some b) \<and> w' = write_file l None w"
  by (auto simp: os_remove_def split: option.splits)

lemma os_makedirs_Inr [simp]:
  "os_makedirs p w = (Inr u, w') \<longleftrightarrow>
     (\<forall>a \<in> set (ancestors (key w p) @ [key w p]). files w a = None) \<and>
     w' = w\<lparr>dirs := dirs w \<union> set (ancestors (key w p) @ [key w p])\<rparr>"
  by (auto simp: os_makedirs_def Let_def)

lemma remove_if_exists_Inr [simp]:
  "remove_if_exists (Path p) w = (Inr u, w') \<longleftrightarrow>
     (files w (key w p) = None \<longrightarrow> key w p \<notin> dirs w) \<and> w' = w\<lparr>files := (files w)(key w p := None)\<rparr>"
  by (cases w) (auto simp: remove_if_exists_def fun_upd_idem)

lemma shutil_copy2_Inr [simp]:
  "shutil_copy2 src dst w = (Inr u, w') \<longleftrightarrow>
     (\<exists>b. read_file w src = Some b \<and> \<not> is_dir w dst \<and> w' = write_file dst (Some b) w)"
  by (auto simp: shutil_copy2_def)

lemma shutil_move_Inr [simp]:
  "shutil_move src dst w = (Inr u, w') \<longleftrightarrow>
     (\<exists>b. read_file w src = Some b \<and> w' = write_file src None (write_file dst (Some b) w))"
  by (auto simp: shutil_move_def split: option.splits)

lemma with_TemporaryDirectory_Inr [simp]:
  "with_TemporaryDirectory body w = (Inr x, w') \<longleftrightarrow>
     (\<exists>w2. body TmpDir (w\<lparr>tmp := Map.empty\<rparr>) = (Inr x, w2) \<and> w' = w2\<lparr>tmp := Map.empty\<rparr>)"
  by (auto simp: with_TemporaryDirectory_def split: prod.splits)

lemma subprocess_run_check_Inr [simp]:
  "subprocess_run_check exiftool command file_path xmp_path w = (Inr r, w') \<longleftrightarrow>
     r = exiftool command (read_file w file_path) (read_file w xmp_path) \<and> returncode r = 0 \<and>
     w' = (write_file file_path (image_after r) w)
            \<lparr>runs := runs w @ [\<lparr>cmd = command, image_before = read_file w file_path,
                                 xmp_given = read_file w xmp_path, outcome = r\<rparr>]\<rparr>"
  by (auto simp: subprocess_run_check_def Let_def)


lemma check_jpeg_files_Inr [simp]:
  "check_jpeg_files ps w = (Inr u, w') \<longleftrightarrow>
     w' = w \<and> (\<forall>p \<in> set ps. \<exists>b. files w (key w p) = Some b \<and> take 2 b = [CHR 0xFF, CHR 0xD8])"
  by (induction ps arbitrary: w) auto

declare check_jpeg_files.simps [simp del]

lemma apply_metadata_Inr [simp]:
  "apply_metadata exiftool (InTmp ''temp_image.jpg'') (InTmp ''motion.xmp'') ''exiftool'' w = (Inr u, w') \<longleftrightarrow>
     u \<and> returncode (exiftool (motion_command w) (tmp w ''temp_image.jpg'') (tmp w ''motion.xmp'')) = 0 \<and>
     w' = w\<lparr>tmp := (tmp w)(''temp_image.jpg'' :=
                 image_after (exiftool (motion_command w) (tmp w ''temp_image.jpg'') (tmp w ''motion.xmp''))),
            runs := runs w @ [\<lparr>cmd = motion_command w, image_before = tmp w ''temp_image.jpg'',
                     xmp_given = tmp w ''motion.xmp'',
                     outcome = exiftool (motion_command w) (tmp w ''temp_image.jpg'') (tmp w ''motion.xmp'')\<rparr>]\<rparr>"
  by (auto simp: apply_metadata_def motion_command_def Let_def)

lemma apply_ultrahdr_metadata_Inr [simp]:
  "apply_ultrahdr_metadata exiftool (InTmp ''hdr_base.jpg'') (InTmp ''ultrahdr.xmp'') w = (Inr u, w') \<longleftrightarrow>
     returncode (exiftool (ultrahdr_command w) (tmp w ''hdr_base.jpg'') (tmp w ''ultrahdr.xmp'')) = 0 \<and>
     w' = w\<lparr>tmp := (tmp w)(''hdr_base.jpg'' :=
                 image_after (exiftool (ultrahdr_command w) (tmp w ''hdr_base.jpg'') (tmp w ''ultrahdr.xmp''))),
            runs := runs w @ [\<lparr>cmd = ultrahdr_command w, image_before = tmp w ''hdr_base.jpg'',
                     xmp_given = tmp w ''ultrahdr.xmp'',
                     outcome = exiftool (ultrahdr_command w) (tmp w ''hdr_base.jpg'') (tmp w ''ultrahdr.xmp'')\<rparr>]\<rparr>"
  by (auto simp: apply_ultrahdr_metadata_def ultrahdr_command_def Let_def)

lemma apply_metadata_combined_Inr [simp]:
  "apply_metadata_combined exiftool (InTmp ''base.jpg'') (InTmp ''combined.xmp'') w = (Inr u, w') \<longleftrightarrow>
     returncode (exiftool (combined_command w) (tmp w ''base.jpg'') (tmp w ''combined.xmp'')) = 0 \<and>
     w' = w\<lparr>tmp := (tmp w)(''base.jpg'' :=
                 image_after (exiftool (combined_command w) (tmp w ''base.jpg'') (tmp w ''combined.xmp''))),
            runs := runs w @ [\<lparr>cmd = combined_command w, image_before = tmp w ''base.jpg'',
                     xmp_given = tmp w ''combined.xmp'',
                     outcome = exiftool (combined_command w) (tmp w ''base.jpg'') (tmp w ''combined.xmp'')\<rparr>]\<rparr>"
  by (auto simp: apply_metadata_combined_def combined_command_def Let_def)

lemma command_upd [simp]:
  "motion_command (w\<lparr>files := f\<rparr>) = motion_command w"
  "motion_command (w\<lparr>tmp := t\<rparr>) = motion_command w"
  "motion_command (w\<lparr>runs := r\<rparr>) = motion_command w"
  "motion_command (w\<lparr>dirs := d\<rparr>) = motion_command w"
  "ultrahdr_command (w\<lparr>files := f\<rparr>) = ultrahdr_command w"
  "ultrahdr_command (w\<lparr>tmp := t\<rparr>) = ultrahdr_command w"
  "ultrahdr_command (w\<lparr>runs := r\<rparr>) = ultrahdr_command w"
  "ultrahdr_command (w\<lparr>dirs := d\<rparr>) = ultrahdr_command w"
  "combined_command (w\<lparr>files := f\<rparr>) = combined_command w"
  "combined_command (w\<lparr>tmp := t\<rparr>) = combined_command w"
  "combined_command (w\<lparr>runs := r\<rparr>) = combined_command w"
  "combined_command (w\<lparr>dirs := d\<rparr>) = combined_command w"
  by (simp_all add: motion_command_def ultrahdr_command_def combined_command_def)

lemma create_xmp_file_Inr [simp]:
  "create_xmp_file a b TmpDir w = (Inr l, w') \<longleftrightarrow>
     l = InTmp ''motion.xmp'' \<and>
     w' = w\<lparr>tmp := (tmp w)(''motion.xmp'' \<mapsto> strip (motion_xmp_content a b))\<rparr>"
  by (auto simp: create_xmp_file_def Let_def tmp_join_def)

lemma create_ultrahdr_xmp_Inr [simp]:
  "create_ultrahdr_xmp a b params TmpDir w = (Inr l, w') \<longleftrightarrow>
     l = InTmp ''ultrahdr.xmp'' \<and>
     w' = w\<lparr>tmp := (tmp w)(''ultrahdr.xmp'' \<mapsto> strip (ultrahdr_xmp_content a b params))\<rparr>"
  by (auto simp: create_ultrahdr_xmp_def Let_def tmp_join_def)

lemma create_combined_xmp_Inr [simp]:
  "create_combined_xmp a b c params TmpDir w = (Inr l, w') \<longleftrightarrow>
     l = InTmp ''combined.xmp'' \<and>
     w' = w\<lparr>tmp := (tmp w)(''combined.xmp'' \<mapsto> strip (combined_xmp_content a b c params))\<rparr>"
  by (auto simp: create_combined_xmp_def Let_def tmp_join_def)

subsection \<open>What a successful run has done\<close>

text \<open>
  A pipeline that returns has found its inputs, has run the tool twice with exit code 0,
  and leaves the world of the last conjunct. \<open>img0\<close> is the primary image read,
  \<open>img1\<close> and \<open>img2\<close> what the first and the second injection leave, \<open>x1\<close> and
  \<open>x2\<close> the two descriptors.
\<close>

lemma gen_motion_photo_Inr:
  fixes tool :: tool and w w' :: world and photo_path video_path output_dir :: path
  assumes run: "gen_motion_photo tool photo_path video_path output_dir w = (Inr (), w')"
  defines "new_dirs \<equiv> set (ancestors (key w output_dir) @ [key w output_dir])"
  defines "abs_photo \<equiv> key w photo_path"
    and "abs_video \<equiv> key w video_path"
    and "output_path \<equiv> key w (os_path_join output_dir (os_path_basename photo_path))"
  defines "img0 \<equiv> the (files w (key w abs_photo))"
    and "v0 \<equiv> the (files w (key w abs_video))"
  defines "x1 \<equiv> strip (motion_xmp_content (length img0) (length v0))"
  defines "r1 \<equiv> tool (motion_command w) (Some img0) (Some x1)"
  defines "img1 \<equiv> the (image_after r1)"
  defines "x2 \<equiv> strip (motion_xmp_content (length img1) (length v0))"
  defines "r2 \<equiv> tool (motion_command w) (Some img1) (Some x2)"
  defines "img2 \<equiv> the (image_after r2)"
  defines "v \<equiv> if key w abs_video = key w output_path then img2 else v0"
  shows "(\<forall>a \<in> new_dirs. files w a = None)
    \<and> files w (key w abs_photo) \<noteq> None \<and> files w (key w abs_video) \<noteq> None
    \<and> key w output_path \<notin> dirs w \<union> new_dirs
    \<and> returncode r1 = 0 \<and> image_after r1 \<noteq> None
    \<and> returncode r2 = 0 \<and> image_after r2 \<noteq> None
    \<and> w' = w\<lparr>dirs := dirs w \<union> new_dirs,
           runs := runs w @
            [\<lparr>cmd = motion_command w, image_before = Some img0, xmp_given = Some x1, outcome = r1\<rparr>,
             \<lparr>cmd = motion_command w, image_before = Some img1, xmp_given = Some x2, outcome = r2\<rparr>],
           tmp := Map.empty,
           files := (files w)(key w output_path \<mapsto> img2 @ v)\<rparr>"
  using run
  unfolding gen_motion_photo_def assms(2-)
  by (clarsimp simp: Let_def tmp_join_def cong: if_cong split: if_splits)

lemma gen_ultra_hdr_Inr:
  fixes tool :: tool and w w' :: world and sdr_path gainmap_path output_path :: path and params :: params
  assumes run: "gen_ultra_hdr tool sdr_path gainmap_path output_path params w = (Inr (), w')"
  defines "abs_sdr \<equiv> key w sdr_path"
    and "abs_gm \<equiv> key w gainmap_path"
  defines "img0 \<equiv> the (files w (key w abs_sdr))"
    and "gm0 \<equiv> the (files w (key w abs_gm))"
  defines "x1 \<equiv> strip (ultrahdr_xmp_content 0 (length gm0) params)"
  defines "r1 \<equiv> tool (ultrahdr_command w) (Some img0) (Some x1)"
  defines "img1 \<equiv> the (image_after r1)"
  defines "x2 \<equiv> strip (ultrahdr_xmp_content (length img1) (length gm0) params)"
  defines "r2 \<equiv> tool (ultrahdr_command w) (Some img1) (Some x2)"
  defines "img2 \<equiv> the (image_after r2)"
  defines "g \<equiv> if key w abs_gm = key w output_path then img2 else gm0"
  shows "files w (key w abs_sdr) \<noteq> None \<and> files w (key w abs_gm) \<noteq> None
    \<and> take 2 img0 = [CHR 0xFF, CHR 0xD8] \<and> take 2 gm0 = [CHR 0xFF, CHR 0xD8]
    \<and> key w output_path \<notin> dirs w
    \<and> returncode r1 = 0 \<and> image_after r1 \<noteq> None
    \<and> returncode r2 = 0 \<and> image_after r2 \<noteq> None
    \<and> w' = w\<lparr>runs := runs w @
            [\<lparr>cmd = ultrahdr_command w, image_before = Some img0, xmp_given = Some x1, outcome = r1\<rparr>,
             \<lparr>cmd = ultrahdr_command w, image_before = Some img1, xmp_given = Some x2, outcome = r2\<rparr>],
           tmp := Map.empty,
           files := (files w)(key w output_path \<mapsto> img2 @ g)\<rparr>"
  using run
  unfolding gen_ultra_hdr_def assms(2-)
  by (clarsimp simp: Let_def tmp_join_def cong: if_cong split: if_splits)

lemma gen_hdr_motion_photo_Inr:
  fixes tool :: tool and w w' :: world and sdr gm video out :: path and params :: params
  assumes run: "gen_hdr_motion_photo tool sdr gm video out params w = (Inr (), w')"
  defines "img0 \<equiv> the (files w (key w sdr))"
    and "gm0 \<equiv> the (files w (key w gm))"
    and "v0 \<equiv> the (files w (key w video))"
  defines "x1 \<equiv> strip (combined_xmp_content 0 (length gm0) (length v0) params)"
  defines "r1 \<equiv> tool (combined_command w) (Some img0) (Some x1)"
  defines "img1 \<equiv> the (image_after r1)"
  defines "x2 \<equiv> strip (combined_xmp_content (length img1) (length gm0) (length v0) params)"
  defines "r2 \<equiv> tool (combined_command w) (Some img1) (Some x2)"
  defines "img2 \<equiv> the (image_after r2)"
  defines "g \<equiv> if key w gm = key w out then img2 else gm0"
  defines "v \<equiv> if key w video = key w out then img2 @ g else v0"
  shows "files w (key w sdr) \<noteq> None \<and> files w (key w gm) \<noteq> None \<and> files w (key w video) \<noteq> None
    \<and> key w out \<notin> dirs w
    \<and> returncode r1 = 0 \<and> image_after r1 \<noteq> None
    \<and> returncode r2 = 0 \<and> image_after r2 \<noteq> None
    \<and> w' = w\<lparr>runs := runs w @
            [\<lparr>cmd = combined_command w, image_before = Some img0, xmp_given = Some x1, outcome = r1\<rparr>,
             \<lparr>cmd = combined_command w, image_before = Some img1, xmp_given = Some x2, outcome = r2\<rparr>],
           tmp := Map.empty,
           files := (files w)(key w out \<mapsto> img2 @ g @ v)\<rparr>"
  using run
  unfolding gen_hdr_motion_photo_def assms(2-)
  apply (clarsimp simp: Let_def tmp_join_def cong: if_cong)
  apply (auto split: if_splits)
  done

subsection \<open>When a run succeeds\<close>

text \<open>The converse: with the inputs in place and a tool that exits with code 0, the
  pipeline returns, and the world is the one above.\<close>

lemma gen_hdr_motion_photo_ok:
  fixes tool :: tool and w :: world and sdr gm video out :: path and params :: params
    and img0 img1 img2 gm0 v0 :: bytes
  defines "x1 \<equiv> strip (combined_xmp_content 0 (length gm0) (length v0) params)"
  defines "x2 \<equiv> strip (combined_xmp_content (length img1) (length gm0) (length v0) params)"
  defines "g \<equiv> if key w gm = key w out then img2 else gm0"
  defines "v \<equiv> if key w video = key w out then img2 @ g else v0"
  assumes "files w (key w sdr) = Some img0" "files w (key w gm) = Some gm0"
    "files w (key w video) = Some v0" "key w out \<notin> dirs w"
    "tool (combined_command w) (Some img0) (Some x1) = r1" "returncode r1 = 0" "image_after r1 = Some img1"
    "tool (combined_command w) (Some img1) (Some x2) = r2" "returncode r2 = 0" "image_after r2 = Some img2"
  shows "gen_hdr_motion_photo tool sdr gm video out params w =
      (Inr (), w\<lparr>runs := runs w @
            [\<lparr>cmd = combined_command w, image_before = Some img0, xmp_given = Some x1, outcome = r1\<rparr>,
             \<lparr>cmd = combined_command w, image_before = Some img1, xmp_given = Some x2, outcome = r2\<rparr>],
           tmp := Map.empty,
           files := (files w)(key w out \<mapsto> img2 @ g @ v)\<rparr>)"
  using assms(5-)
  unfolding gen_hdr_motion_photo_def assms(1-4)
  by (simp add: Let_def tmp_join_def cong: if_cong)

lemma gen_ultra_hdr_ok:
  fixes tool :: tool and w :: world and sdr_path gainmap_path output_path :: path and params :: params
    and img0 img1 img2 gm0 :: bytes
  defines "abs_sdr \<equiv> key w sdr_path"
    and "abs_gm \<equiv> key w gainmap_path"
  defines "x1 \<equiv> strip (ultrahdr_xmp_content 0 (length gm0) params)"
  defines "x2 \<equiv> strip (ultrahdr_xmp_content (length img1) (length gm0) params)"
  defines "g \<equiv> if key w abs_gm = key w output_path then img2 else gm0"
  assumes "files w (key w abs_sdr) = Some img0" "files w (key w abs_gm) = Some gm0"
    "take 2 img0 = [CHR 0xFF, CHR 0xD8]" "take 2 gm0 = [CHR 0xFF, CHR 0xD8]"
    "key w output_path \<notin> dirs w"
    "tool (ultrahdr_command w) (Some img0) (Some x1) = r1" "returncode r1 = 0" "image_after r1 = Some img1"
    "tool (ultrahdr_command w) (Some img1) (Some x2) = r2" "returncode r2 = 0" "image_after r2 = Some img2"
  shows "gen_ultra_hdr tool sdr_path gainmap_path output_path params w =
      (Inr (), w\<lparr>runs := runs w @
            [\<lparr>cmd = ultrahdr_command w, image_before = Some img0, xmp_given = Some x1, outcome = r1\<rparr>,
             \<lparr>cmd = ultrahdr_command w, image_before = Some img1, xmp_given = Some x2, outcome = r2\<rparr>],
           tmp := Map.empty,
           files := (files w)(key w output_path \<mapsto> img2 @ g)\<rparr>)"
  using assms(6-)
  unfolding gen_ultra_hdr_def assms(1-5)
  by (simp add: Let_def tmp_join_def cong: if_cong)

lemma gen_motion_photo_ok:
  fixes tool :: tool and w :: world and photo_path video_path output_dir :: path
    and img0 img1 img2 v0 :: bytes
  defines "new_dirs \<equiv> set (ancestors (key w output_dir) @ [key w output_dir])"
  defines "abs_photo \<equiv> key w photo_path"
    and "abs_video \<equiv> key w video_path"
    and "output_path \<equiv> key w (os_path_join output_dir (os_path_basename photo_path))"
  defines "x1 \<equiv> strip (motion_xmp_content (length img0) (length v0))"
  defines "x2 \<equiv> strip (motion_xmp_content (length img1) (length v0))"
  defines "v \<equiv> if key w abs_video = key w output_path then img2 else v0"
  assumes "\<forall>a \<in> new_dirs. files w a = None"
    "files w (key w abs_photo) = Some img0" "files w (key w abs_video) = Some v0"
    "key w output_path \<notin> dirs w \<union> new_dirs"
    "tool (motion_command w) (Some img0) (Some x1) = r1" "returncode r1 = 0" "image_after r1 = Some img1"
    "tool (motion_command w) (Some img1) (Some x2) = r2" "returncode r2 = 0" "image_after r2 = Some img2"
  shows "gen_motion_photo tool photo_path video_path output_dir w =
      (Inr (), w\<lparr>dirs := dirs w \<union> new_dirs,
           runs := runs w @
            [\<lparr>cmd = motion_command w, image_before = Some img0, xmp_given = Some x1, outcome = r1\<rparr>,
             \<lparr>cmd = motion_command w, image_before = Some img1, xmp_given = Some x2, outcome = r2\<rparr>],
           tmp := Map.empty,
           files := (files w)(key w output_path \<mapsto> img2 @ v)\<rparr>)"
  using assms(8-)
  unfolding gen_motion_photo_def assms(1-7)
  by (simp add: Let_def tmp_join_def cong: if_cong) blast

subsection \<open>Which files a pipeline can write\<close>

lemma writes_onlyD:
  "writes_only c k m \<Longrightarrow> cwd w = c \<Longrightarrow> m w = (r, w') \<Longrightarrow>
     cwd w' = c \<and> (\<forall>k'. k' \<noteq> k \<longrightarrow> files w' k' = files w k')"
  unfolding writes_only_def by blast

lemma writes_only_bind:
  assumes "writes_only c k m" and "\<And>x. writes_only c k (f x)"
  shows "writes_only c k (bind_io m f)"
  unfolding writes_only_def
proof (intro allI impI)
  fix w r w'
  assume c: "cwd w = c" and run: "bind_io m f w = (r, w')"
  show "cwd w' = c \<and> (\<forall>k'. k' \<noteq> k \<longrightarrow> files w' k' = files w k')"
  proof (cases "m w")
    case (Pair a w1)
    note m = writes_onlyD [OF assms(1) c Pair]
    show ?thesis
    proof (cases a)
      case (Inl e)
      then show ?thesis using run Pair m by (simp add: bind_io_def)
    next
      case (Inr x)
      then have "f x w1 = (r, w')" using run Pair by (simp add: bind_io_def)
      from writes_onlyD [OF assms(2) _ this] m show ?thesis by simp
    qed
  qed
qed

lemma writes_only_abspath:
  assumes "writes_only c k (f (abspath_in c p))"
  shows "writes_only c k (bind_io (os_path_abspath p) f)"
  unfolding writes_only_def
proof (intro allI impI)
  fix w r w'
  assume c: "cwd w = c" and run: "bind_io (os_path_abspath p) f w = (r, w')"
  then have "f (abspath_in c p) w = (r, w')"
    by (simp add: bind_io_def os_path_abspath_def)
  from writes_onlyD [OF assms c this]
  show "cwd w' = c \<and> (\<forall>k'. k' \<noteq> k \<longrightarrow> files w' k' = files w k')" .
qed

lemma writes_only_pure [intro!, simp]:
  "writes_only c k (return_io x)" "writes_only c k (raise_io e)"
  "writes_only c k (os_path_getsize l)" "writes_only c k (os_path_exists l)"
  "writes_only c k (read_bytes l)" "writes_only c k (os_makedirs p)"
  by (auto simp: writes_only_def return_io_def raise_io_def os_path_getsize_def os_path_exists_def
      read_bytes_def os_makedirs_def Let_def split: option.splits loc.splits if_splits)

lemma writes_only_if:
  assumes "b \<Longrightarrow> writes_only c k m1" and "\<not> b \<Longrightarrow> writes_only c k m2"
  shows "writes_only c k (if b then m1 else m2)"
  using assms by (cases b) simp_all

lemma writes_only_tmp [intro!, simp]:
  "writes_only c k (write_text (InTmp n) s)"
  "writes_only c k (subprocess_run_check tool command (InTmp f) x)"
  by (auto simp: writes_only_def write_text_def subprocess_run_check_def Let_def split: if_splits)

lemma writes_only_path:
  assumes "abspath_in c p = k"
  shows "writes_only c k (append_bytes (Path p) b)"
    "writes_only c k (os_remove (Path p))"
    "writes_only c k (shutil_move (InTmp n) (Path p))"
  using assms
  by (auto simp: writes_only_def append_bytes_def os_remove_def shutil_move_def key_def
      split: option.splits if_splits)

lemma writes_only_remove_if_exists:
  "abspath_in c p = k \<Longrightarrow> writes_only c k (remove_if_exists (Path p))"
  unfolding remove_if_exists_def
  by (intro writes_only_bind) (auto intro: writes_only_path)

lemma writes_only_copy2 [intro!, simp]: "writes_only c k (shutil_copy2 l (InTmp n))"
  unfolding shutil_copy2_def by (intro writes_only_bind) auto

lemma writes_only_with_tmp:
  assumes "\<And>t. writes_only c k (body t)"
  shows "writes_only c k (with_TemporaryDirectory body)"
  unfolding writes_only_def
proof (intro allI impI)
  fix w r w'
  assume c: "cwd w = c" and run: "with_TemporaryDirectory body w = (r, w')"
  obtain r2 w2 where b: "body TmpDir (w\<lparr>tmp := Map.empty\<rparr>) = (r2, w2)" by (cases "body TmpDir (w\<lparr>tmp := Map.empty\<rparr>)")
  have "cwd (w\<lparr>tmp := Map.empty\<rparr>) = c" using c by simp
  from writes_onlyD [OF assms this b] run b
  show "cwd w' = c \<and> (\<forall>k'. k' \<noteq> k \<longrightarrow> files w' k' = files w k')"
    by (auto simp: with_TemporaryDirectory_def)
qed

lemma writes_only_create [intro!, simp]:
  "writes_only c k (create_xmp_file a b t)"
  "writes_only c k (create_ultrahdr_xmp a b params t)"
  "writes_only c k (create_combined_xmp a b d params t)"
  unfolding create_xmp_file_def create_ultrahdr_xmp_def create_combined_xmp_def Let_def tmp_join_def
  by (intro writes_only_bind; simp)+

lemma writes_only_apply [intro!, simp]:
  "writes_only c k (apply_metadata tool (InTmp f) x e)"
  "writes_only c k (apply_ultrahdr_metadata tool (InTmp f) x)"
  "writes_only c k (apply_metadata_combined tool (InTmp f) x)"
  by (auto simp: writes_only_def apply_metadata_def apply_ultrahdr_metadata_def
      apply_metadata_combined_def subprocess_run_check_def bind_io_def return_io_def Let_def
      split: if_splits)

lemma writes_only_check_jpeg_files [intro!, simp]: "writes_only c k (check_jpeg_files ps)"
proof (induction ps)
  case Nil
  show ?case by (simp add: check_jpeg_files.simps)
next
  case (Cons p ps)
  show ?case
    unfolding check_jpeg_files.simps
    by (intro writes_only_bind writes_only_if; simp add: Cons)
qed

lemma writes_only_gen_hdr_motion_photo:
  "writes_only c (abspath_in c out)
     (gen_hdr_motion_photo tool sdr gm video out params)"
  unfolding gen_hdr_motion_photo_def Let_def tmp_join_def
  by (intro writes_only_bind writes_only_with_tmp writes_only_remove_if_exists writes_only_path; simp)

lemma writes_only_gen_ultra_hdr:
  "writes_only c (abspath_in c out) (gen_ultra_hdr tool sdr gm out params)"
  unfolding gen_ultra_hdr_def Let_def tmp_join_def
  by (intro writes_only_abspath writes_only_if writes_only_bind writes_only_with_tmp writes_only_remove_if_exists writes_only_path; simp)

lemma writes_only_gen_motion_photo:
  "writes_only c (abspath_in c (abspath_in c (os_path_join output_dir (os_path_basename photo_path))))
     (gen_motion_photo tool photo_path video_path output_dir)"
  unfolding gen_motion_photo_def Let_def tmp_join_def
  by (intro writes_only_abspath writes_only_if writes_only_bind writes_only_with_tmp writes_only_remove_if_exists writes_only_path; simp)

subsection \<open>What the builders and the injectors compute\<close>

lemma create_xmp_file_run:
  "create_xmp_file a b t w =
     (Inr (InTmp ''motion.xmp''), w\<lparr>tmp := (tmp w)(''motion.xmp'' \<mapsto> motion_xmp_content a b)\<rparr>)"
  by (simp add: create_xmp_file_def Let_def tmp_join_def bind_io_def write_text_def return_io_def)

lemma create_ultrahdr_xmp_run:
  "create_ultrahdr_xmp a b params t w =
     (Inr (InTmp ''ultrahdr.xmp''),
      w\<lparr>tmp := (tmp w)(''ultrahdr.xmp'' \<mapsto> ultrahdr_xmp_content a b params)\<rparr>)"
  by (simp add: create_ultrahdr_xmp_def Let_def tmp_join_def bind_io_def write_text_def return_io_def)

lemma create_combined_xmp_run:
  "create_combined_xmp a b c params t w =
     (Inr (InTmp ''combined.xmp''),
      w\<lparr>tmp := (tmp w)(''combined.xmp'' \<mapsto> combined_xmp_content a b c params)\<rparr>)"
  by (simp add: create_combined_xmp_def Let_def tmp_join_def bind_io_def write_text_def return_io_def)

lemma dict_get_case: "dict_get d k v = (case d k of None \<Rightarrow> v | Some x \<Rightarrow> x)"
  by (simp add: dict_get_def)

lemma apply_metadata_run:
  "apply_metadata tool file_path xmp_path exiftool_path w =
     (let command = [exiftool_path, ''-overwrite_original'', ''-n'',
                     ''-xmp<='' @ fspath w xmp_path, fspath w file_path];
          r = tool command (read_file w file_path) (read_file w xmp_path);
          w' = (write_file file_path (image_after r) w)
                 \<lparr>runs := runs w @ [\<lparr>cmd = command, image_before = read_file w file_path,
                                      xmp_given = read_file w xmp_path, outcome = r\<rparr>]\<rparr>
      in if returncode r \<noteq> 0
         then (Inl (CalledProcessError (returncode r) (stdout r) (stderr r)), w')
         else (Inr True, w'))"
  by (simp add: apply_metadata_def subprocess_run_check_def bind_io_def return_io_def Let_def)

lemma apply_ultrahdr_metadata_run:
  "apply_ultrahdr_metadata tool file_path xmp_path w =
     (let command = [''exiftool'', ''-overwrite_original'', ''-xmp<='' @ fspath w xmp_path,
                     ''-MPFVersion=0100'', ''-NumberOfImages=2'', fspath w file_path];
          r = tool command (read_file w file_path) (read_file w xmp_path);
          w' = (write_file file_path (image_after r) w)
                 \<lparr>runs := runs w @ [\<lparr>cmd = command, image_before = read_file w file_path,
                                      xmp_given = read_file w xmp_path, outcome = r\<rparr>]\<rparr>
      in if returncode r \<noteq> 0
         then (Inl (CalledProcessError (returncode r) (stdout r) (stderr r)), w')
         else (Inr (), w'))"
  by (simp add: apply_ultrahdr_metadata_def subprocess_run_check_def bind_io_def return_io_def Let_def)

lemma apply_metadata_combined_run:
  "apply_metadata_combined tool file_path xmp_path w =
     (let command = [''exiftool'', ''-overwrite_original'', ''-n'', ''-xmp<='' @ fspath w xmp_path,
                     ''-MPFVersion=0100'', ''-NumberOfImages=3'', fspath w file_path];
          r = tool command (read_file w file_path) (read_file w xmp_path);
          w' = (write_file file_path (image_after r) w)
                 \<lparr>runs := runs w @ [\<lparr>cmd = command, image_before = read_file w file_path,
                                      xmp_given = read_file w xmp_path, outcome = r\<rparr>]\<rparr>
      in if returncode r \<noteq> 0
         then (Inl (CalledProcessError (returncode r) (stdout r) (stderr r)), w')
         else (Inr (), w'))"
  by (simp add: apply_metadata_combined_def subprocess_run_check_def bind_io_def return_io_def Let_def)

lemma plain_params_sample: "plain_params [''gainMapMax'' \<mapsto> ''2.5'']"
  by (simp add: plain_params_def hdr_keys_def)

lemma plain_params_capacity: "plain_params [''hdrCapacityMin'' \<mapsto> ''0.5'']"
  by (simp add: plain_params_def hdr_keys_def)


subsection \<open>When a run fails\<close>

text \<open>
  The pipelines under a tool that exits with a non-zero code, at the first or at the
  second injection, and on a missing or invalid input.
\<close>

lemma os_path_abspath_run: "os_path_abspath p w = (Inr (key w p), w)"
  by (simp add: os_path_abspath_def key_def)

lemma apply_metadata_tmp:
  "apply_metadata tool (InTmp ''temp_image.jpg'') (InTmp ''motion.xmp'') ''exiftool'' w =
     (let r = tool (motion_command w) (tmp w ''temp_image.jpg'') (tmp w ''motion.xmp'');
          w' = w\<lparr>tmp := (tmp w)(''temp_image.jpg'' := image_after r),
                 runs := runs w @ [\<lparr>cmd = motion_command w, image_before = tmp w ''temp_image.jpg'',
                                      xmp_given = tmp w ''motion.xmp'', outcome = r\<rparr>]\<rparr>
      in if returncode r \<noteq> 0
         then (Inl (CalledProcessError (returncode r) (stdout r) (stderr r)), w')
         else (Inr True, w'))"
  by (simp add: apply_metadata_run motion_command_def Let_def)

lemma apply_ultrahdr_metadata_tmp:
  "apply_ultrahdr_metadata tool (InTmp ''hdr_base.jpg'') (InTmp ''ultrahdr.xmp'') w =
     (let r = tool (ultrahdr_command w) (tmp w ''hdr_base.jpg'') (tmp w ''ultrahdr.xmp'');
          w' = w\<lparr>tmp := (tmp w)(''hdr_base.jpg'' := image_after r),
                 runs := runs w @ [\<lparr>cmd = ultrahdr_command w, image_before = tmp w ''hdr_base.jpg'',
                                      xmp_given = tmp w ''ultrahdr.xmp'', outcome = r\<rparr>]\<rparr>
      in if returncode r \<noteq> 0
         then (Inl (CalledProcessError (returncode r) (stdout r) (stderr r)), w')
         else (Inr (), w'))"
  by (simp add: apply_ultrahdr_metadata_run ultrahdr_command_def Let_def)

lemma apply_metadata_combined_tmp:
  "apply_metadata_combined tool (InTmp ''base.jpg'') (InTmp ''combined.xmp'') w =
     (let r = tool (combined_command w) (tmp w ''base.jpg'') (tmp w ''combined.xmp'');
          w' = w\<lparr>tmp := (tmp w)(''base.jpg'' := image_after r),
                 runs := runs w @ [\<lparr>cmd = combined_command w, image_before = tmp w ''base.jpg'',
                                      xmp_given = tmp w ''combined.xmp'', outcome = r\<rparr>]\<rparr>
      in if returncode r \<noteq> 0
         then (Inl (CalledProcessError (returncode r) (stdout r) (stderr r)), w')
         else (Inr (), w'))"
  by (simp add: apply_metadata_combined_run combined_command_def Let_def)

lemmas run_defs = bind_io_def return_io_def raise_io_def os_path_getsize_def read_bytes_def
  write_text_def append_bytes_def os_remove_def shutil_copy2_def shutil_move_def
  with_TemporaryDirectory_def os_path_exists_def remove_if_exists_def os_path_abspath_run
  os_makedirs_def tmp_join_def Let_def
  create_xmp_file_run create_ultrahdr_xmp_run create_combined_xmp_run
  apply_metadata_tmp apply_ultrahdr_metadata_tmp apply_metadata_combined_tmp

lemma combined_fails_first:
  assumes "files w (key w sdr) = Some img0" "files w (key w gm) = Some gm0"
    "files w (key w video) = Some v0"
    "tool (combined_command w) (Some img0)
        (Some (combined_xmp_content 0 (length gm0) (length v0) params)) = r1"
    "returncode r1 \<noteq> 0"
  shows "gen_hdr_motion_photo tool sdr gm video out params w =
     (Inl (CalledProcessError (returncode r1) (stdout r1) (stderr r1)),
      w\<lparr>runs := runs w @ [\<lparr>cmd = combined_command w, image_before = Some img0,
               xmp_given = Some (combined_xmp_content 0 (length gm0) (length v0) params),
               outcome = r1\<rparr>],
        tmp := Map.empty\<rparr>)"
  using assms unfolding gen_hdr_motion_photo_def
  by (simp add: run_defs)

lemma combined_fails_second:
  assumes "files w (key w sdr) = Some img0" "files w (key w gm) = Some gm0"
    "files w (key w video) = Some v0"
    "tool (combined_command w) (Some img0)
        (Some (combined_xmp_content 0 (length gm0) (length v0) params)) = r1"
    "returncode r1 = 0" "image_after r1 = Some img1"
    "tool (combined_command w) (Some img1)
        (Some (combined_xmp_content (length img1) (length gm0) (length v0) params)) = r2"
    "returncode r2 \<noteq> 0"
  shows "gen_hdr_motion_photo tool sdr gm video out params w =
     (Inl (CalledProcessError (returncode r2) (stdout r2) (stderr r2)),
      w\<lparr>runs := runs w @ [\<lparr>cmd = combined_command w, image_before = Some img0,
               xmp_given = Some (combined_xmp_content 0 (length gm0) (length v0) params),
               outcome = r1\<rparr>,
               \<lparr>cmd = combined_command w, image_before = Some img1,
               xmp_given = Some (combined_xmp_content (length img1) (length gm0) (length v0) params),
               outcome = r2\<rparr>],
        tmp := Map.empty\<rparr>)"
  using assms unfolding gen_hdr_motion_photo_def
  by (simp add: run_defs)


lemma ultra_fails_first:
  assumes "files w (key w (key w sdr)) = Some img0" "files w (key w (key w gm)) = Some gm0"
    "take 2 img0 = [CHR 0xFF, CHR 0xD8]" "take 2 gm0 = [CHR 0xFF, CHR 0xD8]"
    "tool (ultrahdr_command w) (Some img0) (Some (ultrahdr_xmp_content 0 (length gm0) params)) = r1"
    "returncode r1 \<noteq> 0"
  shows "gen_ultra_hdr tool sdr gm out params w =
     (Inl (CalledProcessError (returncode r1) (stdout r1) (stderr r1)),
      w\<lparr>runs := runs w @ [\<lparr>cmd = ultrahdr_command w, image_before = Some img0,
               xmp_given = Some (ultrahdr_xmp_content 0 (length gm0) params), outcome = r1\<rparr>],
        tmp := Map.empty\<rparr>)"
  using assms unfolding gen_ultra_hdr_def
  by (simp add: run_defs check_jpeg_files.simps)

lemma ultra_fails_second:
  assumes "files w (key w (key w sdr)) = Some img0" "files w (key w (key w gm)) = Some gm0"
    "take 2 img0 = [CHR 0xFF, CHR 0xD8]" "take 2 gm0 = [CHR 0xFF, CHR 0xD8]"
    "tool (ultrahdr_command w) (Some img0) (Some (ultrahdr_xmp_content 0 (length gm0) params)) = r1"
    "returncode r1 = 0" "image_after r1 = Some img1"
    "tool (ultrahdr_command w) (Some img1)
        (Some (ultrahdr_xmp_content (length img1) (length gm0) params)) = r2"
    "returncode r2 \<noteq> 0"
  shows "gen_ultra_hdr tool sdr gm out params w =
     (Inl (CalledProcessError (returncode r2) (stdout r2) (stderr r2)),
      w\<lparr>runs := runs w @ [\<lparr>cmd = ultrahdr_command w, image_before = Some img0,
               xmp_given = Some (ultrahdr_xmp_content 0 (length gm0) params), outcome = r1\<rparr>,
               \<lparr>cmd = ultrahdr_command w, image_before = Some img1,
               xmp_given = Some (ultrahdr_xmp_content (length img1) (length gm0) params),
               outcome = r2\<rparr>],
        tmp := Map.empty\<rparr>)"
  using assms unfolding gen_ultra_hdr_def
  by (simp add: run_defs check_jpeg_files.simps)

lemma motion_fails_first:
  assumes "\<forall>a \<in> set (ancestors (key w output_dir) @ [key w output_dir]). files w a = None"
    "files w (key w (key w photo)) = Some img0" "files w (key w (key w video)) = Some v0"
    "tool (motion_command w) (Some img0) (Some (motion_xmp_content (length img0) (length v0))) = r1"
    "returncode r1 \<noteq> 0"
  shows "gen_motion_photo tool photo video output_dir w =
     (Inl (CalledProcessError (returncode r1) (stdout r1) (stderr r1)),
      w\<lparr>dirs := dirs w \<union> set (ancestors (key w output_dir) @ [key w output_dir]),
        runs := runs w @ [\<lparr>cmd = motion_command w, image_before = Some img0,
               xmp_given = Some (motion_xmp_content (length img0) (length v0)), outcome = r1\<rparr>],
        tmp := Map.empty\<rparr>)"
  using assms unfolding gen_motion_photo_def
  by (simp add: run_defs)

lemma motion_fails_second:
  assumes "\<forall>a \<in> set (ancestors (key w output_dir) @ [key w output_dir]). files w a = None"
    "files w (key w (key w photo)) = Some img0" "files w (key w (key w video)) = Some v0"
    "tool (motion_command w) (Some img0) (Some (motion_xmp_content (length img0) (length v0))) = r1"
    "returncode r1 = 0" "image_after r1 = Some img1"
    "tool (motion_command w) (Some img1) (Some (motion_xmp_content (length img1) (length v0))) = r2"
    "returncode r2 \<noteq> 0"
  shows "gen_motion_photo tool photo video output_dir w =
     (Inl (CalledProcessError (returncode r2) (stdout r2) (stderr r2)),
      w\<lparr>dirs := dirs w \<union> set (ancestors (key w output_dir) @ [key w output_dir]),
        runs := runs w @ [\<lparr>cmd = motion_command w, image_before = Some img0,
               xmp_given = Some (motion_xmp_content (length img0) (length v0)), outcome = r1\<rparr>,
               \<lparr>cmd = motion_command w, image_before = Some img1,
               xmp_given = Some (motion_xmp_content (length img1) (length v0)), outcome = r2\<rparr>],
        tmp := Map.empty\<rparr>)"
  using assms unfolding gen_motion_photo_def
  by (simp add: run_defs)

lemma motion_video_missing:
  assumes "\<forall>a \<in> set (ancestors (key w output_dir) @ [key w output_dir]). files w a = None"
    "files w (key w (key w video)) = None"
    "key w (key w video) \<notin> dirs w \<union> set (ancestors (key w output_dir) @ [key w output_dir])"
  shows "gen_motion_photo tool photo video output_dir w =
     (Inl (FileNotFoundError (Path (key w video))),
      w\<lparr>dirs := dirs w \<union> set (ancestors (key w output_dir) @ [key w output_dir])\<rparr>)"
  using assms unfolding gen_motion_photo_def
  by (simp add: run_defs)

lemma motion_photo_missing:
  assumes "\<forall>a \<in> set (ancestors (key w output_dir) @ [key w output_dir]). files w a = None"
    "files w (key w (key w video)) = Some v0"
    "files w (key w (key w photo)) = None"
    "key w (key w photo) \<notin> dirs w \<union> set (ancestors (key w output_dir) @ [key w output_dir])"
  shows "gen_motion_photo tool photo video output_dir w =
     (Inl (FileNotFoundError (Path (key w photo))),
      w\<lparr>dirs := dirs w \<union> set (ancestors (key w output_dir) @ [key w output_dir]),
        tmp := Map.empty\<rparr>)"
  using assms unfolding gen_motion_photo_def
  by (simp add: run_defs)

lemma ultra_sdr_missing:
  assumes "files w (key w (key w sdr)) = None" "key w (key w sdr) \<notin> dirs w"
  shows "gen_ultra_hdr tool sdr gm out params w = (Inl (FileNotFoundError (Path (key w sdr))), w)"
  using assms unfolding gen_ultra_hdr_def
  by (simp add: run_defs check_jpeg_files.simps)

lemma ultra_sdr_invalid:
  assumes "files w (key w (key w sdr)) = Some b" "take 2 b \<noteq> [CHR 0xFF, CHR 0xD8]"
  shows "gen_ultra_hdr tool sdr gm out params w = (Inl (ValueError (Path (key w sdr))), w)"
  using assms unfolding gen_ultra_hdr_def
  by (simp add: run_defs check_jpeg_files.simps)

lemma ultra_gm_missing:
  assumes "files w (key w (key w sdr)) = Some b" "take 2 b = [CHR 0xFF, CHR 0xD8]"
    "files w (key w (key w gm)) = None" "key w (key w gm) \<notin> dirs w"
  shows "gen_ultra_hdr tool sdr gm out params w = (Inl (FileNotFoundError (Path (key w gm))), w)"
  using assms unfolding gen_ultra_hdr_def
  by (simp add: run_defs check_jpeg_files.simps)

lemma ultra_gm_invalid:
  assumes "files w (key w (key w sdr)) = Some b" "take 2 b = [CHR 0xFF, CHR 0xD8]"
    "files w (key w (key w gm)) = Some g" "take 2 g \<noteq> [CHR 0xFF, CHR 0xD8]"
  shows "gen_ultra_hdr tool sdr gm out params w = (Inl (ValueError (Path (key w gm))), w)"
  using assms unfolding gen_ultra_hdr_def
  by (simp add: run_defs check_jpeg_files.simps)

lemma combined_gm_missing:
  assumes "files w (key w gm) = None" "key w gm \<notin> dirs w"
  shows "gen_hdr_motion_photo tool sdr gm video out params w = (Inl (FileNotFoundError (Path gm)), w)"
  using assms unfolding gen_hdr_motion_photo_def
  by (simp add: run_defs)

lemma combined_video_missing:
  assumes "files w (key w gm) = Some gm0" "files w (key w video) = None" "key w video \<notin> dirs w"
  shows "gen_hdr_motion_photo tool sdr gm video out params w = (Inl (FileNotFoundError (Path video)), w)"
  using assms unfolding gen_hdr_motion_photo_def
  by (simp add: run_defs)

lemma combined_sdr_missing:
  assumes "files w (key w gm) = Some gm0" "files w (key w video) = Some v0"
    "files w (key w sdr) = None" "key w sdr \<notin> dirs w"
  shows "gen_hdr_motion_photo tool sdr gm video out params w =
     (Inl (FileNotFoundError (Path sdr)), w\<lparr>tmp := Map.empty\<rparr>)"
  using assms unfolding gen_hdr_motion_photo_def
  by (simp add: run_defs)

subsection \<open>The result of a successful run, by name\<close>

text \<open>
  The same facts with names for what they mention: \<open>i1\<close> and \<open>i2\<close> are the two
  invocations of the tool that the run has logged.
\<close>

lemma gen_hdr_motion_photo_result:
  assumes run: "gen_hdr_motion_photo tool sdr gm video out params w = (Inr (), w')"
  obtains img0 gm0 v0 img1 img2 i1 i2 where
    "files w (key w sdr) = Some img0" and "files w (key w gm) = Some gm0"
    and "files w (key w video) = Some v0" and "key w out \<notin> dirs w"
    and "runs w' = runs w @ [i1, i2]"
    and "image_before i1 = Some img0"
    and "xmp_given i1 = Some (combined_xmp_content 0 (length gm0) (length v0) params)"
    and "outcome i1 = tool (combined_command w) (image_before i1) (xmp_given i1)"
    and "returncode (outcome i1) = 0" and "image_after (outcome i1) = Some img1"
    and "image_before i2 = Some img1"
    and "xmp_given i2 = Some (combined_xmp_content (length img1) (length gm0) (length v0) params)"
    and "outcome i2 = tool (combined_command w) (image_before i2) (xmp_given i2)"
    and "returncode (outcome i2) = 0" and "image_after (outcome i2) = Some img2"
    and "files w' = (files w)(key w out \<mapsto>
           img2 @ (if key w gm = key w out then img2 else gm0)
                @ (if key w video = key w out
                   then img2 @ (if key w gm = key w out then img2 else gm0) else v0))"
    and "dirs w' = dirs w" and "tmp w' = Map.empty" and "cwd w' = cwd w"
proof -
  define img0 where "img0 = the (files w (key w sdr))"
  define gm0 where "gm0 = the (files w (key w gm))"
  define v0 where "v0 = the (files w (key w video))"
  define x1 where "x1 = combined_xmp_content 0 (length gm0) (length v0) params"
  define r1 where "r1 = tool (combined_command w) (Some img0) (Some x1)"
  define img1 where "img1 = the (image_after r1)"
  define x2 where "x2 = combined_xmp_content (length img1) (length gm0) (length v0) params"
  define r2 where "r2 = tool (combined_command w) (Some img1) (Some x2)"
  define img2 where "img2 = the (image_after r2)"
  define g where "g = (if key w gm = key w out then img2 else gm0)"
  define v where "v = (if key w video = key w out then img2 @ g else v0)"
  have core: "files w (key w sdr) \<noteq> None \<and> files w (key w gm) \<noteq> None \<and> files w (key w video) \<noteq> None
    \<and> key w out \<notin> dirs w
    \<and> returncode r1 = 0 \<and> image_after r1 \<noteq> None
    \<and> returncode r2 = 0 \<and> image_after r2 \<noteq> None
    \<and> w' = w\<lparr>runs := runs w @
            [\<lparr>cmd = combined_command w, image_before = Some img0, xmp_given = Some x1, outcome = r1\<rparr>,
             \<lparr>cmd = combined_command w, image_before = Some img1, xmp_given = Some x2, outcome = r2\<rparr>],
           tmp := Map.empty,
           files := (files w)(key w out \<mapsto> img2 @ g @ v)\<rparr>"
    unfolding v_def g_def img2_def r2_def x2_def img1_def r1_def x1_def v0_def gm0_def img0_def
    by (rule gen_hdr_motion_photo_Inr [OF run, unfolded strip_content])
  show thesis
  proof (rule that [of img0 gm0 v0
        "\<lparr>cmd = combined_command w, image_before = Some img0, xmp_given = Some x1, outcome = r1\<rparr>"
        "\<lparr>cmd = combined_command w, image_before = Some img1, xmp_given = Some x2, outcome = r2\<rparr>"
        img1 img2])
    show "files w (key w sdr) = Some img0" using core by (simp add: img0_def)
    show "files w (key w gm) = Some gm0" using core by (simp add: gm0_def)
    show "files w (key w video) = Some v0" using core by (simp add: v0_def)
    show "key w out \<notin> dirs w" using core by simp
    show "image_after (outcome \<lparr>cmd = combined_command w, image_before = Some img0, xmp_given = Some x1, outcome = r1\<rparr>) = Some img1"
      using core by (simp add: img1_def)
    show "image_after (outcome \<lparr>cmd = combined_command w, image_before = Some img1, xmp_given = Some x2, outcome = r2\<rparr>) = Some img2"
      using core by (simp add: img2_def)
  qed (use core in \<open>simp_all add: x1_def x2_def r1_def r2_def g_def v_def\<close>)
qed


lemma gen_ultra_hdr_result:
  assumes run: "gen_ultra_hdr tool sdr gm out params w = (Inr (), w')"
  obtains img0 gm0 img1 img2 i1 i2 where
    "files w (key w (key w sdr)) = Some img0" and "files w (key w (key w gm)) = Some gm0"
    and "take 2 img0 = [CHR 0xFF, CHR 0xD8]" and "take 2 gm0 = [CHR 0xFF, CHR 0xD8]"
    and "key w out \<notin> dirs w"
    and "runs w' = runs w @ [i1, i2]"
    and "image_before i1 = Some img0"
    and "xmp_given i1 = Some (ultrahdr_xmp_content 0 (length gm0) params)"
    and "outcome i1 = tool (ultrahdr_command w) (image_before i1) (xmp_given i1)"
    and "returncode (outcome i1) = 0" and "image_after (outcome i1) = Some img1"
    and "image_before i2 = Some img1"
    and "xmp_given i2 = Some (ultrahdr_xmp_content (length img1) (length gm0) params)"
    and "outcome i2 = tool (ultrahdr_command w) (image_before i2) (xmp_given i2)"
    and "returncode (outcome i2) = 0" and "image_after (outcome i2) = Some img2"
    and "files w' = (files w)(key w out \<mapsto>
           img2 @ (if key w (key w gm) = key w out then img2 else gm0))"
    and "dirs w' = dirs w" and "tmp w' = Map.empty" and "cwd w' = cwd w"
proof -
  define img0 where "img0 = the (files w (key w (key w sdr)))"
  define gm0 where "gm0 = the (files w (key w (key w gm)))"
  define x1 where "x1 = ultrahdr_xmp_content 0 (length gm0) params"
  define r1 where "r1 = tool (ultrahdr_command w) (Some img0) (Some x1)"
  define img1 where "img1 = the (image_after r1)"
  define x2 where "x2 = ultrahdr_xmp_content (length img1) (length gm0) params"
  define r2 where "r2 = tool (ultrahdr_command w) (Some img1) (Some x2)"
  define img2 where "img2 = the (image_after r2)"
  define g where "g = (if key w (key w gm) = key w out then img2 else gm0)"
  have core: "files w (key w (key w sdr)) \<noteq> None \<and> files w (key w (key w gm)) \<noteq> None
    \<and> take 2 img0 = [CHR 0xFF, CHR 0xD8] \<and> take 2 gm0 = [CHR 0xFF, CHR 0xD8]
    \<and> key w out \<notin> dirs w
    \<and> returncode r1 = 0 \<and> image_after r1 \<noteq> None
    \<and> returncode r2 = 0 \<and> image_after r2 \<noteq> None
    \<and> w' = w\<lparr>runs := runs w @
            [\<lparr>cmd = ultrahdr_command w, image_before = Some img0, xmp_given = Some x1, outcome = r1\<rparr>,
             \<lparr>cmd = ultrahdr_command w, image_before = Some img1, xmp_given = Some x2, outcome = r2\<rparr>],
           tmp := Map.empty,
           files := (files w)(key w out \<mapsto> img2 @ g)\<rparr>"
    unfolding g_def img2_def r2_def x2_def img1_def r1_def x1_def gm0_def img0_def
    by (rule gen_ultra_hdr_Inr [OF run, unfolded strip_content])
  show thesis
  proof (rule that [of img0 gm0
        "\<lparr>cmd = ultrahdr_command w, image_before = Some img0, xmp_given = Some x1, outcome = r1\<rparr>"
        "\<lparr>cmd = ultrahdr_command w, image_before = Some img1, xmp_given = Some x2, outcome = r2\<rparr>"
        img1 img2])
    show "files w (key w (key w sdr)) = Some img0" using core by (simp add: img0_def)
    show "files w (key w (key w gm)) = Some gm0" using core by (simp add: gm0_def)
    show "key w out \<notin> dirs w" using core by simp
    show "image_after (outcome \<lparr>cmd = ultrahdr_command w, image_before = Some img0, xmp_given = Some x1, outcome = r1\<rparr>) = Some img1"
      using core by (simp add: img1_def)
    show "image_after (outcome \<lparr>cmd = ultrahdr_command w, image_before = Some img1, xmp_given = Some x2, outcome = r2\<rparr>) = Some img2"
      using core by (simp add: img2_def)
  qed (use core in \<open>simp_all add: x1_def x2_def r1_def r2_def g_def\<close>)
qed

lemma gen_motion_photo_result:
  assumes run: "gen_motion_photo tool photo video output_dir w = (Inr (), w')"
  obtains img0 v0 img1 img2 i1 i2 where
    "\<forall>a \<in> set (ancestors (key w output_dir) @ [key w output_dir]). files w a = None"
    and "files w (key w (key w photo)) = Some img0" and "files w (key w (key w video)) = Some v0"
    and "key w (key w (os_path_join output_dir (os_path_basename photo)))
           \<notin> dirs w \<union> set (ancestors (key w output_dir) @ [key w output_dir])"
    and "runs w' = runs w @ [i1, i2]"
    and "image_before i1 = Some img0"
    and "xmp_given i1 = Some (motion_xmp_content (length img0) (length v0))"
    and "outcome i1 = tool (motion_command w) (image_before i1) (xmp_given i1)"
    and "returncode (outcome i1) = 0" and "image_after (outcome i1) = Some img1"
    and "image_before i2 = Some img1"
    and "xmp_given i2 = Some (motion_xmp_content (length img1) (length v0))"
    and "outcome i2 = tool (motion_command w) (image_before i2) (xmp_given i2)"
    and "returncode (outcome i2) = 0" and "image_after (outcome i2) = Some img2"
    and "files w' = (files w)(key w (key w (os_path_join output_dir (os_path_basename photo))) \<mapsto>
           img2 @ (if key w (key w video) = key w (key w (os_path_join output_dir (os_path_basename photo)))
                   then img2 else v0))"
    and "dirs w' = dirs w \<union> set (ancestors (key w output_dir) @ [key w output_dir])"
    and "tmp w' = Map.empty" and "cwd w' = cwd w"
proof -
  define kout where "kout = key w (key w (os_path_join output_dir (os_path_basename photo)))"
  define img0 where "img0 = the (files w (key w (key w photo)))"
  define v0 where "v0 = the (files w (key w (key w video)))"
  define x1 where "x1 = motion_xmp_content (length img0) (length v0)"
  define r1 where "r1 = tool (motion_command w) (Some img0) (Some x1)"
  define img1 where "img1 = the (image_after r1)"
  define x2 where "x2 = motion_xmp_content (length img1) (length v0)"
  define r2 where "r2 = tool (motion_command w) (Some img1) (Some x2)"
  define img2 where "img2 = the (image_after r2)"
  define v where "v = (if key w (key w video) = kout then img2 else v0)"
  have core: "(\<forall>a \<in> set (ancestors (key w output_dir) @ [key w output_dir]). files w a = None)
    \<and> files w (key w (key w photo)) \<noteq> None \<and> files w (key w (key w video)) \<noteq> None
    \<and> kout \<notin> dirs w \<union> set (ancestors (key w output_dir) @ [key w output_dir])
    \<and> returncode r1 = 0 \<and> image_after r1 \<noteq> None
    \<and> returncode r2 = 0 \<and> image_after r2 \<noteq> None
    \<and> w' = w\<lparr>dirs := dirs w \<union> set (ancestors (key w output_dir) @ [key w output_dir]),
           runs := runs w @
            [\<lparr>cmd = motion_command w, image_before = Some img0, xmp_given = Some x1, outcome = r1\<rparr>,
             \<lparr>cmd = motion_command w, image_before = Some img1, xmp_given = Some x2, outcome = r2\<rparr>],
           tmp := Map.empty,
           files := (files w)(kout \<mapsto> img2 @ v)\<rparr>"
    unfolding v_def img2_def r2_def x2_def img1_def r1_def x1_def v0_def img0_def kout_def
    by (rule gen_motion_photo_Inr [OF run, unfolded strip_content])
  show thesis
  proof (rule that [of img0 v0
        "\<lparr>cmd = motion_command w, image_before = Some img0, xmp_given = Some x1, outcome = r1\<rparr>"
        "\<lparr>cmd = motion_command w, image_before = Some img1, xmp_given = Some x2, outcome = r2\<rparr>"
        img1 img2])
    show "files w (key w (key w photo)) = Some img0" using core by (simp add: img0_def)
    show "files w (key w (key w video)) = Some v0" using core by (simp add: v0_def)
    show "\<forall>a \<in> set (ancestors (key w output_dir) @ [key w output_dir]). files w a = None"
      using core by blast
    show "key w (key w (os_path_join output_dir (os_path_basename photo)))
           \<notin> dirs w \<union> set (ancestors (key w output_dir) @ [key w output_dir])"
      using core unfolding kout_def by blast
    show "image_after (outcome \<lparr>cmd = motion_command w, image_before = Some img0, xmp_given = Some x1, outcome = r1\<rparr>) = Some img1"
      using core by (simp add: img1_def)
    show "image_after (outcome \<lparr>cmd = motion_command w, image_before = Some img1, xmp_given = Some x2, outcome = r2\<rparr>) = Some img2"
      using core by (simp add: img2_def)
  qed (use core in \<open>simp_all add: x1_def x2_def r1_def r2_def v_def kout_def\<close>)
qed

subsection \<open>The sample world\<close>

lemma sample_cwd [simp]: "cwd sample_world = ''/home/u''"
  by (simp add: sample_world_def)

lemma abspath_samples:
  "abspath_in ''/home/u'' ''sdr.jpg'' = ''/home/u/sdr.jpg''"
  "abspath_in ''/home/u'' ''gm.jpg'' = ''/home/u/gm.jpg''"
  "abspath_in ''/home/u'' ''clip.mp4'' = ''/home/u/clip.mp4''"
  "abspath_in ''/home/u'' ''out.jpg'' = ''/home/u/out.jpg''"
  "abspath_in ''/home/u'' ''missing.mp4'' = ''/home/u/missing.mp4''"
  "abspath_in ''/home/u'' ''/home/u/sdr.jpg'' = ''/home/u/sdr.jpg''"
  "abspath_in ''/home/u'' ''/home/u/gm.jpg'' = ''/home/u/gm.jpg''"
  "abspath_in ''/home/u'' ''/home/u/clip.mp4'' = ''/home/u/clip.mp4''"
  "abspath_in ''/home/u'' ''/home/u/missing.mp4'' = ''/home/u/missing.mp4''"
  "abspath_in ''/home/u'' ''out'' = ''/home/u/out''"
  "abspath_in ''/home/u'' ''.'' = ''/home/u''"
  "abspath_in ''/home/u'' ''out/sdr.jpg'' = ''/home/u/out/sdr.jpg''"
  "abspath_in ''/home/u'' ''/home/u/out/sdr.jpg'' = ''/home/u/out/sdr.jpg''"
  "abspath_in ''/home/u'' ''./sdr.jpg'' = ''/home/u/sdr.jpg''"
  by code_simp+

lemma join_samples:
  "os_path_join ''out'' (os_path_basename ''sdr.jpg'') = ''out/sdr.jpg''"
  "os_path_join ''.'' (os_path_basename ''sdr.jpg'') = ''./sdr.jpg''"
  by code_simp+

lemma ancestors_samples:
  "ancestors ''/home/u/out'' = [''/'', ''/home'', ''/home/u'']"
  "ancestors ''/home/u'' = [''/'', ''/home'']"
  by code_simp+

lemma sample_key: "key sample_world p = abspath_in ''/home/u'' p"
  by (simp add: key_def)

lemma sample_fields [simp]:
  "files sample_world = [''/home/u/sdr.jpg'' \<mapsto> [CHR 0xFF, CHR 0xD8, CHR ''a''],
               ''/home/u/gm.jpg'' \<mapsto> [CHR 0xFF, CHR 0xD8, CHR ''g''],
               ''/home/u/clip.mp4'' \<mapsto> ''vid'']"
  "dirs sample_world = {''/'', ''/home'', ''/home/u''}"
  "tmp sample_world = Map.empty" "runs sample_world = []"
  by (simp_all add: sample_world_def)

lemma marking_tool_simps [simp]:
  "returncode (marking_tool c i x) = 0"
  "image_after (marking_tool c (Some b) x) = Some (b @ ''M'')"
  by (simp_all add: marking_tool_def)

lemma sample_combined_run:
  "gen_hdr_motion_photo marking_tool ''sdr.jpg'' ''gm.jpg'' ''clip.mp4'' ''out.jpg'' Map.empty sample_world =
     (Inr (), sample_world\<lparr>runs :=
        [\<lparr>cmd = combined_command sample_world, image_before = Some [CHR 0xFF, CHR 0xD8, CHR ''a''],
          xmp_given = Some (combined_xmp_content 0 3 3 Map.empty),
          outcome = marking_tool (combined_command sample_world) (Some [CHR 0xFF, CHR 0xD8, CHR ''a''])
                      (Some (combined_xmp_content 0 3 3 Map.empty))\<rparr>,
         \<lparr>cmd = combined_command sample_world, image_before = Some [CHR 0xFF, CHR 0xD8, CHR ''a'', CHR ''M''],
          xmp_given = Some (combined_xmp_content 4 3 3 Map.empty),
          outcome = marking_tool (combined_command sample_world) (Some [CHR 0xFF, CHR 0xD8, CHR ''a'', CHR ''M''])
                      (Some (combined_xmp_content 4 3 3 Map.empty))\<rparr>],
        tmp := Map.empty,
        files := (files sample_world)(''/home/u/out.jpg'' \<mapsto>
           [CHR 0xFF, CHR 0xD8, CHR ''a'', CHR ''M'', CHR ''M'', CHR 0xFF, CHR 0xD8, CHR ''g'',
            CHR ''v'', CHR ''i'', CHR ''d''])\<rparr>)"
proof -
  note k = sample_key abspath_samples
  have f: "files sample_world (key sample_world ''sdr.jpg'') = Some [CHR 0xFF, CHR 0xD8, CHR ''a'']"
    "files sample_world (key sample_world ''gm.jpg'') = Some [CHR 0xFF, CHR 0xD8, CHR ''g'']"
    "files sample_world (key sample_world ''clip.mp4'') = Some ''vid''"
    "key sample_world ''out.jpg'' \<notin> dirs sample_world"
    by (simp_all add: k)
  note r = gen_hdr_motion_photo_ok [where tool = marking_tool and params = Map.empty,
      OF f refl marking_tool_simps refl marking_tool_simps]
  from r show ?thesis by (simp add: k eval_nat_numeral)
qed


lemma sample_ultra_run:
  "gen_ultra_hdr marking_tool ''sdr.jpg'' ''gm.jpg'' ''out.jpg'' Map.empty sample_world =
     (Inr (), sample_world\<lparr>runs :=
        [\<lparr>cmd = ultrahdr_command sample_world, image_before = Some [CHR 0xFF, CHR 0xD8, CHR ''a''],
          xmp_given = Some (ultrahdr_xmp_content 0 3 Map.empty),
          outcome = marking_tool (ultrahdr_command sample_world) (Some [CHR 0xFF, CHR 0xD8, CHR ''a''])
                      (Some (ultrahdr_xmp_content 0 3 Map.empty))\<rparr>,
         \<lparr>cmd = ultrahdr_command sample_world, image_before = Some [CHR 0xFF, CHR 0xD8, CHR ''a'', CHR ''M''],
          xmp_given = Some (ultrahdr_xmp_content 4 3 Map.empty),
          outcome = marking_tool (ultrahdr_command sample_world) (Some [CHR 0xFF, CHR 0xD8, CHR ''a'', CHR ''M''])
                      (Some (ultrahdr_xmp_content 4 3 Map.empty))\<rparr>],
        tmp := Map.empty,
        files := (files sample_world)(''/home/u/out.jpg'' \<mapsto>
           [CHR 0xFF, CHR 0xD8, CHR ''a'', CHR ''M'', CHR ''M'', CHR 0xFF, CHR 0xD8, CHR ''g''])\<rparr>)"
proof -
  note k = sample_key abspath_samples
  have f: "files sample_world (key sample_world (key sample_world ''sdr.jpg'')) = Some [CHR 0xFF, CHR 0xD8, CHR ''a'']"
    "files sample_world (key sample_world (key sample_world ''gm.jpg'')) = Some [CHR 0xFF, CHR 0xD8, CHR ''g'']"
    "take 2 [CHR 0xFF, CHR 0xD8, CHR ''a''] = [CHR 0xFF, CHR 0xD8]"
    "take 2 [CHR 0xFF, CHR 0xD8, CHR ''g''] = [CHR 0xFF, CHR 0xD8]"
    "key sample_world ''out.jpg'' \<notin> dirs sample_world"
    by (simp_all add: k)
  note r = gen_ultra_hdr_ok [where tool = marking_tool and params = Map.empty,
      OF f refl marking_tool_simps refl marking_tool_simps]
  from r show ?thesis by (simp add: k eval_nat_numeral)
qed

lemma sample_ultra_alias_run:
  "gen_ultra_hdr marking_tool ''sdr.jpg'' ''gm.jpg'' ''gm.jpg'' Map.empty sample_world =
     (Inr (), sample_world\<lparr>runs :=
        [\<lparr>cmd = ultrahdr_command sample_world, image_before = Some [CHR 0xFF, CHR 0xD8, CHR ''a''],
          xmp_given = Some (ultrahdr_xmp_content 0 3 Map.empty),
          outcome = marking_tool (ultrahdr_command sample_world) (Some [CHR 0xFF, CHR 0xD8, CHR ''a''])
                      (Some (ultrahdr_xmp_content 0 3 Map.empty))\<rparr>,
         \<lparr>cmd = ultrahdr_command sample_world, image_before = Some [CHR 0xFF, CHR 0xD8, CHR ''a'', CHR ''M''],
          xmp_given = Some (ultrahdr_xmp_content 4 3 Map.empty),
          outcome = marking_tool (ultrahdr_command sample_world) (Some [CHR 0xFF, CHR 0xD8, CHR ''a'', CHR ''M''])
                      (Some (ultrahdr_xmp_content 4 3 Map.empty))\<rparr>],
        tmp := Map.empty,
        files := (files sample_world)(''/home/u/gm.jpg'' \<mapsto>
           [CHR 0xFF, CHR 0xD8, CHR ''a'', CHR ''M'', CHR ''M'',
            CHR 0xFF, CHR 0xD8, CHR ''a'', CHR ''M'', CHR ''M''])\<rparr>)"
proof -
  note k = sample_key abspath_samples
  have f: "files sample_world (key sample_world (key sample_world ''sdr.jpg'')) = Some [CHR 0xFF, CHR 0xD8, CHR ''a'']"
    "files sample_world (key sample_world (key sample_world ''gm.jpg'')) = Some [CHR 0xFF, CHR 0xD8, CHR ''g'']"
    "take 2 [CHR 0xFF, CHR 0xD8, CHR ''a''] = [CHR 0xFF, CHR 0xD8]"
    "take 2 [CHR 0xFF, CHR 0xD8, CHR ''g''] = [CHR 0xFF, CHR 0xD8]"
    "key sample_world ''gm.jpg'' \<notin> dirs sample_world"
    by (simp_all add: k)
  note r = gen_ultra_hdr_ok [where tool = marking_tool and params = Map.empty,
      OF f refl marking_tool_simps refl marking_tool_simps]
  from r show ?thesis by (simp add: k eval_nat_numeral)
qed

lemma sample_motion_run:
  "gen_motion_photo marking_tool ''sdr.jpg'' ''clip.mp4'' ''out'' sample_world =
     (Inr (), sample_world\<lparr>dirs := {''/'', ''/home'', ''/home/u'', ''/home/u/out''},
        runs :=
        [\<lparr>cmd = motion_command sample_world, image_before = Some [CHR 0xFF, CHR 0xD8, CHR ''a''],
          xmp_given = Some (motion_xmp_content 3 3),
          outcome = marking_tool (motion_command sample_world) (Some [CHR 0xFF, CHR 0xD8, CHR ''a''])
                      (Some (motion_xmp_content 3 3))\<rparr>,
         \<lparr>cmd = motion_command sample_world, image_before = Some [CHR 0xFF, CHR 0xD8, CHR ''a'', CHR ''M''],
          xmp_given = Some (motion_xmp_content 4 3),
          outcome = marking_tool (motion_command sample_world) (Some [CHR 0xFF, CHR 0xD8, CHR ''a'', CHR ''M''])
                      (Some (motion_xmp_content 4 3))\<rparr>],
        tmp := Map.empty,
        files := (files sample_world)(''/home/u/out/sdr.jpg'' \<mapsto>
           [CHR 0xFF, CHR 0xD8, CHR ''a'', CHR ''M'', CHR ''M'', CHR ''v'', CHR ''i'', CHR ''d''])\<rparr>)"
proof -
  note k = sample_key abspath_samples join_samples ancestors_samples
  have f: "\<forall>a \<in> set (ancestors (key sample_world ''out'') @ [key sample_world ''out'']). files sample_world a = None"
    "files sample_world (key sample_world (key sample_world ''sdr.jpg'')) = Some [CHR 0xFF, CHR 0xD8, CHR ''a'']"
    "files sample_world (key sample_world (key sample_world ''clip.mp4'')) = Some ''vid''"
    "key sample_world (key sample_world (os_path_join ''out'' (os_path_basename ''sdr.jpg'')))
       \<notin> dirs sample_world \<union> set (ancestors (key sample_world ''out'') @ [key sample_world ''out''])"
    by (simp_all add: k)
  note r = gen_motion_photo_ok [where tool = marking_tool,
      OF f refl marking_tool_simps refl marking_tool_simps]
  from r show ?thesis by (simp add: k eval_nat_numeral insert_commute)
qed

lemma sample_motion_alias_run:
  "gen_motion_photo marking_tool ''sdr.jpg'' ''clip.mp4'' ''.'' sample_world =
     (Inr (), sample_world\<lparr>dirs := {''/'', ''/home'', ''/home/u''},
        runs :=
        [\<lparr>cmd = motion_command sample_world, image_before = Some [CHR 0xFF, CHR 0xD8, CHR ''a''],
          xmp_given = Some (motion_xmp_content 3 3),
          outcome = marking_tool (motion_command sample_world) (Some [CHR 0xFF, CHR 0xD8, CHR ''a''])
                      (Some (motion_xmp_content 3 3))\<rparr>,
         \<lparr>cmd = motion_command sample_world, image_before = Some [CHR 0xFF, CHR 0xD8, CHR ''a'', CHR ''M''],
          xmp_given = Some (motion_xmp_content 4 3),
          outcome = marking_tool (motion_command sample_world) (Some [CHR 0xFF, CHR 0xD8, CHR ''a'', CHR ''M''])
                      (Some (motion_xmp_content 4 3))\<rparr>],
        tmp := Map.empty,
        files := (files sample_world)(''/home/u/sdr.jpg'' \<mapsto>
           [CHR 0xFF, CHR 0xD8, CHR ''a'', CHR ''M'', CHR ''M'', CHR ''v'', CHR ''i'', CHR ''d''])\<rparr>)"
proof -
  note k = sample_key abspath_samples join_samples ancestors_samples
  have f: "\<forall>a \<in> set (ancestors (key sample_world ''.'') @ [key sample_world ''.'']). files sample_world a = None"
    "files sample_world (key sample_world (key sample_world ''sdr.jpg'')) = Some [CHR 0xFF, CHR 0xD8, CHR ''a'']"
    "files sample_world (key sample_world (key sample_world ''clip.mp4'')) = Some ''vid''"
    "key sample_world (key sample_world (os_path_join ''.'' (os_path_basename ''sdr.jpg'')))
       \<notin> dirs sample_world \<union> set (ancestors (key sample_world ''.'') @ [key sample_world ''.''])"
    by (simp_all add: k)
  note r = gen_motion_photo_ok [where tool = marking_tool,
      OF f refl marking_tool_simps refl marking_tool_simps]
  from r show ?thesis by (simp add: k eval_nat_numeral insert_commute insert_absorb)
qed

lemma show_nat_samples: "show_nat 3 = ''3''" "show_nat 4 = ''4''" "show_nat 5 = ''5''"
  by (subst show_nat.simps, simp add: digit_char_def)+

lemma plain_params_empty: "plain_params Map.empty"
  by (simp add: plain_params_def)

lemma nth_1_pair: "[a, b] ! 1 = b" by simp

lemmas sample_eval = sample_motion_run sample_ultra_run sample_combined_run plain_params_empty
  sample_key abspath_samples join_samples

section \<open>The claims\<close>

subsection \<open>C1: the Primary length of the second build\<close>

text \<open>
  Claim C1 says that in every pipeline the second build of the descriptor declares, as
  the Primary segment's \<open>Item:Length\<close>, the size of the image measured after the first
  injection. \<^verbatim>\<open>gen_ultra_hdr\<close> measures that size and passes it to
  \<^verbatim>\<open>create_ultrahdr_xmp\<close>, whose template has the constant 0 in that place. On the
  sample world, with a tool that appends one byte: the run succeeds, the image has 4 bytes
  after the first injection, and the second descriptor declares the lengths 0 (Primary)
  and 3 (GainMap).
\<close>

theorem C1_ultra_hdr_declares_primary_length_zero:
  "fst (gen_ultra_hdr marking_tool ''sdr.jpg'' ''gm.jpg'' ''out.jpg'' Map.empty sample_world) = Inr ()
   \<and> image_after (outcome (runs (snd (gen_ultra_hdr marking_tool ''sdr.jpg'' ''gm.jpg'' ''out.jpg''
         Map.empty sample_world)) ! 0)) = Some [CHR 0xFF, CHR 0xD8, CHR ''a'', CHR ''M'']
   \<and> element_texts ''Item:Length'' (the (xmp_given (runs (snd (gen_ultra_hdr marking_tool ''sdr.jpg''
         ''gm.jpg'' ''out.jpg'' Map.empty sample_world)) ! 1))) = [''0'', ''3'']"
  by (simp add: sample_ultra_run ultrahdr_fields [OF plain_params_empty] show_nat_samples)


subsection \<open>C2: declared and physical lengths\<close>










subsection \<open>C6: tone-mapping parameters and their defaults\<close>

text \<open>
  Claim C6 says that every tone-mapping parameter absent from the configuration falls
  back to its default and every supplied one is serialized as supplied, in both
  HDR-capable descriptors. The combined descriptor has no \<open>hdrgm:HDRCapacityMin\<close>
  element and \<^verbatim>\<open>create_combined_xmp\<close> never reads \<open>hdrCapacityMin\<close>: a supplied
  value \<open>0.5\<close> does not reach the descriptor.
\<close>

theorem C6_counterexample:
  "element_texts ''hdrgm:HDRCapacityMin''
     (the (tmp (snd (create_combined_xmp 0 3 3 [''hdrCapacityMin'' \<mapsto> ''0.5''] TmpDir sample_world))
             ''combined.xmp'')) = []"
  by (simp add: create_combined_xmp_run combined_fields [OF plain_params_capacity])



text \<open>
  Claim C6, as amended. For numeric parameters, the descriptor file that
  \<^verbatim>\<open>create_ultrahdr_xmp\<close> writes carries each of \<open>gainMapMin\<close>, \<open>gainMapMax\<close>,
  \<open>gamma\<close>, \<open>hdrCapacityMin\<close>, \<open>hdrCapacityMax\<close> with the supplied value, and with
  the defaults 0.0, 1.0, 1.0, 0.0, 2.0 when absent; the file that
  \<^verbatim>\<open>create_combined_xmp\<close> writes carries \<open>gainMapMin\<close>, \<open>gainMapMax\<close>, \<open>gamma\<close>,
  \<open>hdrCapacityMax\<close> with the supplied value, and with the defaults 0.0, 2.1, 1.0, 2.1
  when absent, and carries no \<open>HDRCapacityMin\<close> at all.
\<close>

theorem C6_parameters_serialized:
  assumes "plain_params params"
  shows "(\<exists>x. create_ultrahdr_xmp image_length gainmap_length params tmp_dir w
            = (Inr (InTmp ''ultrahdr.xmp''), w\<lparr>tmp := (tmp w)(''ultrahdr.xmp'' \<mapsto> x)\<rparr>)
          \<and> element_texts ''hdrgm:GainMapMin'' x
              = [case params ''gainMapMin'' of None \<Rightarrow> ''0.0'' | Some v \<Rightarrow> v]
          \<and> element_texts ''hdrgm:GainMapMax'' x
              = [case params ''gainMapMax'' of None \<Rightarrow> ''1.0'' | Some v \<Rightarrow> v]
          \<and> element_texts ''hdrgm:Gamma'' x
              = [case params ''gamma'' of None \<Rightarrow> ''1.0'' | Some v \<Rightarrow> v]
          \<and> element_texts ''hdrgm:HDRCapacityMin'' x
              = [case params ''hdrCapacityMin'' of None \<Rightarrow> ''0.0'' | Some v \<Rightarrow> v]
          \<and> element_texts ''hdrgm:HDRCapacityMax'' x
              = [case params ''hdrCapacityMax'' of None \<Rightarrow> ''2.0'' | Some v \<Rightarrow> v])
       \<and> (\<exists>x. create_combined_xmp sdr_len gm_len video_len params tmp_dir w
            = (Inr (InTmp ''combined.xmp''), w\<lparr>tmp := (tmp w)(''combined.xmp'' \<mapsto> x)\<rparr>)
          \<and> element_texts ''hdrgm:GainMapMin'' x
              = [case params ''gainMapMin'' of None \<Rightarrow> ''0.0'' | Some v \<Rightarrow> v]
          \<and> element_texts ''hdrgm:GainMapMax'' x
              = [case params ''gainMapMax'' of None \<Rightarrow> ''2.1'' | Some v \<Rightarrow> v]
          \<and> element_texts ''hdrgm:Gamma'' x
              = [case params ''gamma'' of None \<Rightarrow> ''1.0'' | Some v \<Rightarrow> v]
          \<and> element_texts ''hdrgm:HDRCapacityMax'' x
              = [case params ''hdrCapacityMax'' of None \<Rightarrow> ''2.1'' | Some v \<Rightarrow> v]
          \<and> element_texts ''hdrgm:HDRCapacityMin'' x = [])"
proof (intro conjI)
  show "\<exists>x. create_ultrahdr_xmp image_length gainmap_length params tmp_dir w
            = (Inr (InTmp ''ultrahdr.xmp''), w\<lparr>tmp := (tmp w)(''ultrahdr.xmp'' \<mapsto> x)\<rparr>)
          \<and> element_texts ''hdrgm:GainMapMin'' x
              = [case params ''gainMapMin'' of None \<Rightarrow> ''0.0'' | Some v \<Rightarrow> v]
          \<and> element_texts ''hdrgm:GainMapMax'' x
              = [case params ''gainMapMax'' of None \<Rightarrow> ''1.0'' | Some v \<Rightarrow> v]
          \<and> element_texts ''hdrgm:Gamma'' x
              = [case params ''gamma'' of None \<Rightarrow> ''1.0'' | Some v \<Rightarrow> v]
          \<and> element_texts ''hdrgm:HDRCapacityMin'' x
              = [case params ''hdrCapacityMin'' of None \<Rightarrow> ''0.0'' | Some v \<Rightarrow> v]
          \<and> element_texts ''hdrgm:HDRCapacityMax'' x
              = [case params ''hdrCapacityMax'' of None \<Rightarrow> ''2.0'' | Some v \<Rightarrow> v]"
    by (rule exI [of _ "ultrahdr_xmp_content image_length gainmap_length params"])
       (simp only: create_ultrahdr_xmp_run ultrahdr_fields [OF assms] dict_get_case simp_thms)
  show "\<exists>x. create_combined_xmp sdr_len gm_len video_len params tmp_dir w
            = (Inr (InTmp ''combined.xmp''), w\<lparr>tmp := (tmp w)(''combined.xmp'' \<mapsto> x)\<rparr>)
          \<and> element_texts ''hdrgm:GainMapMin'' x
              = [case params ''gainMapMin'' of None \<Rightarrow> ''0.0'' | Some v \<Rightarrow> v]
          \<and> element_texts ''hdrgm:GainMapMax'' x
              = [case params ''gainMapMax'' of None \<Rightarrow> ''2.1'' | Some v \<Rightarrow> v]
          \<and> element_texts ''hdrgm:Gamma'' x
              = [case params ''gamma'' of None \<Rightarrow> ''1.0'' | Some v \<Rightarrow> v]
          \<and> element_texts ''hdrgm:HDRCapacityMax'' x
              = [case params ''hdrCapacityMax'' of None \<Rightarrow> ''2.1'' | Some v \<Rightarrow> v]
          \<and> element_texts ''hdrgm:HDRCapacityMin'' x = []"
    by (rule exI [of _ "combined_xmp_content sdr_len gm_len video_len params"])
       (simp only: create_combined_xmp_run combined_fields [OF assms] dict_get_case simp_thms)
qed


text \<open>The amended claim C6 on a configuration that supplies \<open>gainMapMax\<close> only.\<close>

theorem C6_parameters_serialized_witness:
  "plain_params [''gainMapMax'' \<mapsto> ''2.5'']
   \<and> (\<exists>x. create_ultrahdr_xmp 0 3 [''gainMapMax'' \<mapsto> ''2.5''] TmpDir sample_world
            = (Inr (InTmp ''ultrahdr.xmp''), sample_world\<lparr>tmp := (tmp sample_world)(''ultrahdr.xmp'' \<mapsto> x)\<rparr>)
          \<and> element_texts ''hdrgm:GainMapMax'' x = [''2.5'']
          \<and> element_texts ''hdrgm:HDRCapacityMax'' x = [''2.0''])
   \<and> (\<exists>x. create_combined_xmp 0 3 3 [''gainMapMax'' \<mapsto> ''2.5''] TmpDir sample_world
            = (Inr (InTmp ''combined.xmp''), sample_world\<lparr>tmp := (tmp sample_world)(''combined.xmp'' \<mapsto> x)\<rparr>)
          \<and> element_texts ''hdrgm:GainMapMax'' x = [''2.5'']
          \<and> element_texts ''hdrgm:HDRCapacityMax'' x = [''2.1''])"
  using C6_parameters_serialized [OF plain_params_sample, of 0 3 TmpDir sample_world 0 3 3]
    plain_params_sample
  by (simp only: fun_upd_apply option.case list.inject char.inject simp_thms if_False if_True) blast


subsection \<open>C7: when an injection counts as failed\<close>







end
